theory Spec2Isabelle
  imports Complex_Main
begin

section \<open>Python values\<close>

text \<open>
  The checks pass JSON-shaped Python values around: the bodies of HTTP responses, the
  \<open>details\<close> dictionaries and the artifacts. \<open>json\<close> is that universe. A dictionary
  is the list of its items in insertion order (its keys are distinct); strings are lists
  of code points below 256. Floating-point numbers are not part of the model.
\<close>

datatype json =
    JNull
  | JBool bool
  | JInt int
  | JStr string
  | JList "json list"
  | JObj "(string \<times> json) list"

text \<open>
  A raised exception is carried by the text \<open>str(e)\<close> that \<open>run\<close> stores; a computation
  that may raise returns \<open>exn + 'a\<close>, with \<open>Inl\<close> for the raise. Only exceptions derived
  from \<open>Exception\<close> are meant, the ones \<open>except Exception\<close> catches.
\<close>

type_synonym exn = string

definition then_do :: "exn + 'a \<Rightarrow> ('a \<Rightarrow> exn + 'b) \<Rightarrow> exn + 'b" where
  "then_do r f = (case r of Inl e \<Rightarrow> Inl e | Inr x \<Rightarrow> f x)"

text \<open>The first raise of a left-to-right evaluation of a list wins.\<close>

fun collect :: "(exn + 'a) list \<Rightarrow> exn + 'a list" where
  "collect [] = Inr []"
| "collect (r # rs) = then_do r (\<lambda>x. then_do (collect rs) (\<lambda>xs. Inr (x # xs)))"

text \<open>Python's truth value of an object, as \<open>if x\<close> and \<open>x and y\<close> test it.\<close>

fun truthy :: "json \<Rightarrow> bool" where
  "truthy JNull = False"
| "truthy (JBool b) = b"
| "truthy (JInt n) = (n \<noteq> 0)"
| "truthy (JStr s) = (s \<noteq> [])"
| "truthy (JList xs) = (xs \<noteq> [])"
| "truthy (JObj kvs) = (kvs \<noteq> [])"

fun type_name :: "json \<Rightarrow> string" where
  "type_name JNull = ''NoneType''"
| "type_name (JBool b) = ''bool''"
| "type_name (JInt n) = ''int''"
| "type_name (JStr s) = ''str''"
| "type_name (JList xs) = ''list''"
| "type_name (JObj kvs) = ''dict''"

definition quoted :: "string \<Rightarrow> string" where
  "quoted s = CHR 0x27 # s @ [CHR 0x27]"

text \<open>\<open>d.get(k, default)\<close>: an AttributeError when \<open>d\<close> is not a dictionary.\<close>

fun dict_get :: "json \<Rightarrow> string \<Rightarrow> json \<Rightarrow> exn + json" where
  "dict_get (JObj kvs) k dflt = Inr (case map_of kvs k of Some v \<Rightarrow> v | None \<Rightarrow> dflt)"
| "dict_get d k dflt = Inl (quoted (type_name d) @ '' object has no attribute '' @ quoted ''get'')"

text \<open>\<open>d[k]\<close>: a KeyError when the key is missing, a TypeError when \<open>d\<close> is no dictionary.\<close>

fun dict_item :: "json \<Rightarrow> string \<Rightarrow> exn + json" where
  "dict_item (JObj kvs) k = (case map_of kvs k of Some v \<Rightarrow> Inr v | None \<Rightarrow> Inl (quoted k))"
| "dict_item (JList xs) k = Inl ''list indices must be integers or slices, not str''"
| "dict_item (JStr s) k = Inl ''string indices must be integers''"
| "dict_item d k = Inl (quoted (type_name d) @ '' object is not subscriptable'')"

text \<open>
  Membership in a Python set: the element must be hashable (lists and dictionaries are
  not, and the lookup raises a TypeError even on an empty set), and it is found when it
  equals a member, where \<open>True == 1\<close> and \<open>False == 0\<close>.
\<close>

fun hashable :: "json \<Rightarrow> bool" where
  "hashable (JList xs) = False"
| "hashable (JObj kvs) = False"
| "hashable v = True"

fun same_key :: "json \<Rightarrow> json \<Rightarrow> bool" where
  "same_key (JBool b) (JInt n) = (n = (if b then 1 else 0))"
| "same_key (JInt n) (JBool b) = (n = (if b then 1 else 0))"
| "same_key a b = (a = b)"

definition unhashable :: "json \<Rightarrow> exn" where
  "unhashable v = ''unhashable type: '' @ quoted (type_name v)"

definition set_of :: "json list \<Rightarrow> exn + json list" where
  "set_of vs = collect (map (\<lambda>v. if hashable v then Inr v else Inl (unhashable v)) vs)"

definition set_member :: "json \<Rightarrow> json list \<Rightarrow> exn + bool" where
  "set_member v members =
     (if hashable v then Inr (list_ex (same_key v) members) else Inl (unhashable v))"

text \<open>\<open>str.lower()\<close> on code points below 256.\<close>

definition lower_char :: "char \<Rightarrow> char" where
  "lower_char c =
     (let n = of_char c :: nat in
      if (65 \<le> n \<and> n \<le> 90) \<or> (192 \<le> n \<and> n \<le> 214) \<or> (216 \<le> n \<and> n \<le> 222)
      then char_of (n + 32) else c)"

definition lower :: "string \<Rightarrow> string" where
  "lower s = map lower_char s"

section \<open>Evidence model (tests/base.py)\<close>

datatype TestResult = PASS | FAIL | ERROR | SKIP

fun TestResult_value :: "TestResult \<Rightarrow> string" where
  "TestResult_value PASS = ''PASS''"
| "TestResult_value FAIL = ''FAIL''"
| "TestResult_value ERROR = ''ERROR''"
| "TestResult_value SKIP = ''SKIP''"

record EvidenceArtifact =
  type :: string
  description :: string
  data :: json

record Evidence =
  test_id :: string
  test_name :: string
  timestamp :: string
  result :: string
  control_mapping :: "string list"
  duration_ms :: int
  details :: "(string \<times> json) list"
  artifacts :: "json list"
  error_message :: "string option"

text \<open>\<open>dataclasses.asdict\<close> of an artifact.\<close>

definition asdict :: "EvidenceArtifact \<Rightarrow> json" where
  "asdict a = JObj [(''type'', JStr (type a)), (''description'', JStr (description a)),
                    (''data'', data a)]"

section \<open>The outside world of one check\<close>

text \<open>
  What a check observes while it runs. \<open>dataplane_session k path key\<close> is the outcome
  of the \<open>k\<close>-th request (from 0) that the data-plane client sends during the check, for
  the path and the \<open>X-API-Key\<close> header it sends: a raised transport failure (timeout,
  connection error) or a response. \<open>konnect_consumers\<close> and \<open>konnect_plugins\<close> are the
  outcomes of the two admin listings: a raise of the request (transport failure, non-2xx
  status, unknown control plane) or the items of \<open>response.json().get("data", [])\<close>.
\<close>

record http_response =
  status_code :: int
  headers :: "(string \<times> string) list"
  json_body :: "json option"  \<comment> \<open>\<open>None\<close>: \<open>response.json()\<close> raises\<close>

record world =
  dataplane_session :: "nat \<Rightarrow> string \<Rightarrow> string option \<Rightarrow> exn + http_response"
  konnect_consumers :: "exn + json list"
  konnect_plugins :: "exn + json list"

text \<open>
  The two readings of the clock that \<open>run\<close> takes: \<open>datetime.now\<close> rendered as ISO-8601
  and \<open>time.time()\<close> in seconds before and after \<open>execute\<close>, as rational numbers
  (the rounding of the floats is not modelled; it keeps the sign of a difference).
  \<open>time.time()\<close> is the wall clock, so nothing orders the two readings.
\<close>

record clock =
  utc_now :: string
  time_start :: rat
  time_end :: rat

section \<open>Check abstraction (tests/base.py)\<close>

datatype execute_outcome =
    Returns TestResult "(string \<times> json) list" "EvidenceArtifact list"
  | Raises exn

record BaseTest =
  test_id :: string
  test_name :: string
  control_mapping :: "string list"
  execute :: "world \<Rightarrow> execute_outcome"

text \<open>Python's \<open>int(x)\<close> on a float: truncation towards zero.\<close>

definition int_of_float :: "rat \<Rightarrow> int" where
  "int_of_float x = (if 0 \<le> x then \<lfloor>x\<rfloor> else \<lceil>x\<rceil>)"

definition elapsed_ms :: "clock \<Rightarrow> int" where
  "elapsed_ms clk = int_of_float ((time_end clk - time_start clk) * 1000)"

definition run :: "BaseTest \<Rightarrow> clock \<Rightarrow> world \<Rightarrow> Evidence" where
  "run self clk w =
     (case execute self w of
        Returns res dets arts \<Rightarrow>
          \<lparr> Evidence.test_id = BaseTest.test_id self,
            Evidence.test_name = BaseTest.test_name self,
            timestamp = utc_now clk,
            result = TestResult_value res,
            Evidence.control_mapping = BaseTest.control_mapping self,
            duration_ms = elapsed_ms clk,
            details = dets,
            artifacts = map asdict arts,
            error_message = None \<rparr>
      | Raises e \<Rightarrow>
          \<lparr> Evidence.test_id = BaseTest.test_id self,
            Evidence.test_name = BaseTest.test_name self,
            timestamp = utc_now clk,
            result = TestResult_value ERROR,
            Evidence.control_mapping = BaseTest.control_mapping self,
            duration_ms = elapsed_ms clk,
            details = [],
            artifacts = [],
            error_message = Some e \<rparr>)"

section \<open>Gateway clients (clients/kong.py)\<close>

record KongConsumer =
  id' :: json
  username :: json
  custom_id :: json
  created_at :: json

record KongPlugin =
  id' :: json
  name :: json
  enabled :: json
  config :: json
  consumer_id :: json
  service_id :: json
  route_id :: json

subsection \<open>KonnectClient\<close>

definition consumer_of_item :: "json \<Rightarrow> exn + KongConsumer" where
  "consumer_of_item item =
     then_do (dict_item item ''id'') (\<lambda>i.
     then_do (dict_get item ''username'' (JStr [])) (\<lambda>u.
     then_do (dict_get item ''custom_id'' JNull) (\<lambda>c.
     then_do (dict_get item ''created_at'' (JInt 0)) (\<lambda>t.
       Inr \<lparr> KongConsumer.id' = i, username = u, custom_id = c, created_at = t \<rparr>))))"

fun consumers_loop :: "json list \<Rightarrow> exn + KongConsumer list" where
  "consumers_loop [] = Inr []"
| "consumers_loop (item # items) =
     then_do (consumer_of_item item) (\<lambda>c.
     then_do (consumers_loop items) (\<lambda>cs. Inr (c # cs)))"

definition get_consumers :: "world \<Rightarrow> exn + KongConsumer list" where
  "get_consumers w = then_do (konnect_consumers w) consumers_loop"

text \<open>\<open>item.get(k, {}).get("id") if item.get(k) else None\<close>\<close>

definition nested_id :: "json \<Rightarrow> string \<Rightarrow> exn + json" where
  "nested_id item k =
     then_do (dict_get item k JNull) (\<lambda>c.
       if truthy c
       then then_do (dict_get item k (JObj [])) (\<lambda>c'. dict_get c' ''id'' JNull)
       else Inr JNull)"

text \<open>The construction of one \<open>KongPlugin\<close>, its arguments evaluated in order.\<close>

definition new_plugin :: "json \<Rightarrow> exn + KongPlugin" where
  "new_plugin item =
     then_do (dict_item item ''id'') (\<lambda>i.
     then_do (dict_item item ''name'') (\<lambda>n.
     then_do (dict_get item ''enabled'' (JBool True)) (\<lambda>e.
     then_do (dict_get item ''config'' (JObj [])) (\<lambda>c.
     then_do (nested_id item ''consumer'') (\<lambda>ci.
     then_do (nested_id item ''service'') (\<lambda>si.
     then_do (nested_id item ''route'') (\<lambda>ri.
       Inr \<lparr> KongPlugin.id' = i, name = n, enabled = e, config = c,
             consumer_id = ci, service_id = si, route_id = ri \<rparr>)))))))"

text \<open>
  One round of the loop of \<open>get_plugins\<close>: \<open>None\<close> is the \<open>continue\<close> of an item
  whose name is not the one asked for.
\<close>

definition plugin_of_item :: "string option \<Rightarrow> json \<Rightarrow> exn + KongPlugin option" where
  "plugin_of_item plugin_name item =
     (case plugin_name of
        None \<Rightarrow> then_do (new_plugin item) (\<lambda>p. Inr (Some p))
      | Some pn \<Rightarrow>
          if pn = [] then then_do (new_plugin item) (\<lambda>p. Inr (Some p))
          else then_do (dict_get item ''name'' JNull) (\<lambda>n.
                 if n \<noteq> JStr pn then Inr None
                 else then_do (new_plugin item) (\<lambda>p. Inr (Some p))))"

fun plugins_loop :: "string option \<Rightarrow> json list \<Rightarrow> exn + KongPlugin list" where
  "plugins_loop plugin_name [] = Inr []"
| "plugins_loop plugin_name (item # items) =
     then_do (plugin_of_item plugin_name item) (\<lambda>p.
     then_do (plugins_loop plugin_name items) (\<lambda>ps.
       Inr (case p of None \<Rightarrow> ps | Some q \<Rightarrow> q # ps)))"

definition get_plugins :: "world \<Rightarrow> string option \<Rightarrow> exn + KongPlugin list" where
  "get_plugins w plugin_name = then_do (konnect_plugins w) (plugins_loop plugin_name)"

subsection \<open>DataplaneClient\<close>

text \<open>\<open>request\<close> sends the \<open>X-API-Key\<close> header only for a key that is not empty.\<close>

definition get :: "world \<Rightarrow> nat \<Rightarrow> string \<Rightarrow> string option \<Rightarrow> exn + http_response" where
  "get w k path api_key =
     dataplane_session w k path
       (case api_key of None \<Rightarrow> None | Some key \<Rightarrow> if key = [] then None else Some key)"

definition response_json :: "http_response \<Rightarrow> json" where
  "response_json r = (case json_body r of None \<Rightarrow> JObj [] | Some j \<Rightarrow> j)"

definition health_check :: "world \<Rightarrow> string \<Rightarrow> bool \<times> int \<times> json" where
  "health_check w api_key =
     (case get w 0 ''/api/health'' (Some api_key) of
        Inr response \<Rightarrow> (status_code response = 200, status_code response, response_json response)
      | Inl e \<Rightarrow> (False, 0, JObj [(''error'', JStr e)]))"

definition test_rate_limit :: "world \<Rightarrow> string \<Rightarrow> string \<Rightarrow> nat \<Rightarrow> int list" where
  "test_rate_limit w api_key path num_requests =
     map (\<lambda>k. case get w k path (Some api_key) of
                 Inr response \<Rightarrow> status_code response
               | Inl e \<Rightarrow> 0)
         [0..<num_requests]"

definition get_whoami :: "world \<Rightarrow> string \<Rightarrow> int \<times> json" where
  "get_whoami w api_key =
     (case get w 0 ''/api/whoami'' (Some api_key) of
        Inr response \<Rightarrow> (status_code response, response_json response)
      | Inl e \<Rightarrow> (0, JObj [(''error'', JStr e)]))"

section \<open>Runtime checks (tests/runtime.py)\<close>

text \<open>\<open>sum(1 for r in results if r == c)\<close>\<close>

definition count_status :: "int \<Rightarrow> int list \<Rightarrow> nat" where
  "count_status c results = length (filter (\<lambda>r. r = c) results)"

definition results_detail :: "int list \<Rightarrow> json" where
  "results_detail results =
     JList (map (\<lambda>(i, r). JObj [(''request'', JInt (int i + 1)), (''status'', JInt r)])
                (enumerate 0 results))"

definition outcome_of :: "bool \<Rightarrow> TestResult" where
  "outcome_of passed = (if passed then PASS else FAIL)"

definition RT001_execute :: "string \<Rightarrow> world \<Rightarrow> execute_outcome" where
  "RT001_execute api_key w =
     (let num_requests = 8;
          expected_limit = 5;
          results = test_rate_limit w api_key ''/api/hello'' num_requests;
          success_count = count_status 200 results;
          rate_limited_count = count_status 429 results;
          passed = (rate_limited_count > 0 \<and> success_count \<le> expected_limit);
          details =
            [(''api_key'', JStr api_key),
             (''tier'', JStr ''free_trial''),
             (''expected_limit'', JInt (int expected_limit)),
             (''requests_sent'', JInt (int num_requests)),
             (''success_count'', JInt (int success_count)),
             (''rate_limited_count'', JInt (int rate_limited_count)),
             (''results'', results_detail results),
             (''rate_limit_triggered'', JBool (rate_limited_count > 0))];
          artifacts =
            [\<lparr> type = ''test_results'',
               description = ''HTTP status codes for rate limit test'',
               data = JList (map JInt results) \<rparr>]
      in Returns (outcome_of passed) details artifacts)"

definition RT001_RateLimitFreeTier :: "string \<Rightarrow> BaseTest" where
  "RT001_RateLimitFreeTier api_key =
     \<lparr> BaseTest.test_id = ''RT-001'',
       BaseTest.test_name = ''Rate limiting enforces free tier (5 req/min)'',
       BaseTest.control_mapping = [''CC6.1'', ''CC6.3'', ''CC7.2''],
       execute = RT001_execute api_key \<rparr>"

definition RT002_execute :: "string \<Rightarrow> world \<Rightarrow> execute_outcome" where
  "RT002_execute api_key w =
     (let num_requests = 10;
          results = test_rate_limit w api_key ''/api/hello'' num_requests;
          success_count = count_status 200 results;
          rate_limited_count = count_status 429 results;
          passed = (success_count = num_requests);
          details =
            [(''api_key'', JStr api_key),
             (''tier'', JStr ''pro''),
             (''expected_limit'', JInt 60),
             (''requests_sent'', JInt (int num_requests)),
             (''success_count'', JInt (int success_count)),
             (''rate_limited_count'', JInt (int rate_limited_count)),
             (''results'', results_detail results),
             (''all_passed'', JBool passed)];
          artifacts =
            [\<lparr> type = ''test_results'',
               description = ''HTTP status codes for pro tier test'',
               data = JList (map JInt results) \<rparr>]
      in Returns (outcome_of passed) details artifacts)"

definition RT002_RateLimitProTier :: "string \<Rightarrow> BaseTest" where
  "RT002_RateLimitProTier api_key =
     \<lparr> BaseTest.test_id = ''RT-002'',
       BaseTest.test_name = ''Rate limiting enforces pro tier (60 req/min)'',
       BaseTest.control_mapping = [''CC6.1'', ''CC6.3'', ''CC7.2''],
       execute = RT002_execute api_key \<rparr>"

definition response_snapshot :: "http_response \<Rightarrow> json" where
  "response_snapshot response =
     JObj [(''status_code'', JInt (status_code response)),
           (''headers'', JObj (map (\<lambda>(k, v). (k, JStr v)) (headers response)))]"

definition RT003_execute :: "world \<Rightarrow> execute_outcome" where
  "RT003_execute w =
     (case get w 0 ''/api/hello'' (Some ''invalid-key-12345'') of
        Inl e \<Rightarrow> Raises e
      | Inr response \<Rightarrow>
          (let passed = (status_code response = 401);
               details =
                 [(''api_key_used'', JStr ''invalid-key-12345''),
                  (''expected_status'', JInt 401),
                  (''actual_status'', JInt (status_code response)),
                  (''rejected'', JBool passed)];
               artifacts =
                 [\<lparr> type = ''http_response'',
                    description = ''Response from invalid key request'',
                    data = response_snapshot response \<rparr>]
           in Returns (outcome_of passed) details artifacts))"

definition RT003_InvalidKeyRejected :: BaseTest where
  "RT003_InvalidKeyRejected =
     \<lparr> BaseTest.test_id = ''RT-003'',
       BaseTest.test_name = ''Invalid API key rejected (401)'',
       BaseTest.control_mapping = [''CC6.1'', ''CC6.6''],
       execute = RT003_execute \<rparr>"

definition RT004_execute :: "world \<Rightarrow> execute_outcome" where
  "RT004_execute w =
     (case get w 0 ''/api/hello'' None of
        Inl e \<Rightarrow> Raises e
      | Inr response \<Rightarrow>
          (let passed = (status_code response = 401);
               details =
                 [(''api_key_used'', JNull),
                  (''expected_status'', JInt 401),
                  (''actual_status'', JInt (status_code response)),
                  (''rejected'', JBool passed)];
               artifacts =
                 [\<lparr> type = ''http_response'',
                    description = ''Response from request without API key'',
                    data = response_snapshot response \<rparr>]
           in Returns (outcome_of passed) details artifacts))"

definition RT004_MissingKeyRejected :: BaseTest where
  "RT004_MissingKeyRejected =
     \<lparr> BaseTest.test_id = ''RT-004'',
       BaseTest.test_name = ''Missing API key rejected (401)'',
       BaseTest.control_mapping = [''CC6.1'', ''CC6.6''],
       execute = RT004_execute \<rparr>"

definition RT005_execute :: "string \<Rightarrow> world \<Rightarrow> execute_outcome" where
  "RT005_execute api_key w =
     (case health_check w api_key of
        (is_healthy, status, response_data) \<Rightarrow>
          (let passed = (status = 200);
               details =
                 [(''api_key_used'', JStr api_key),
                  (''expected_status'', JInt 200),
                  (''actual_status'', JInt status),
                  (''accepted'', JBool passed),
                  (''health_response'', response_data)];
               artifacts =
                 [\<lparr> type = ''http_response'',
                    description = ''Health check response with valid key'',
                    data = response_data \<rparr>]
           in Returns (outcome_of passed) details artifacts))"

definition RT005_ValidKeyAccepted :: "string \<Rightarrow> BaseTest" where
  "RT005_ValidKeyAccepted api_key =
     \<lparr> BaseTest.test_id = ''RT-005'',
       BaseTest.test_name = ''Valid API key accepted (200)'',
       BaseTest.control_mapping = [''CC6.1''],
       execute = RT005_execute api_key \<rparr>"

definition RT006_execute :: "string \<Rightarrow> string \<Rightarrow> world \<Rightarrow> execute_outcome" where
  "RT006_execute api_key expected_custom_id w =
     (case get_whoami w api_key of
        (status, response_data) \<Rightarrow>
          (case dict_get response_data ''consumer'' (JObj []) of
             Inl e \<Rightarrow> Raises e
           | Inr consumer_info \<Rightarrow>
               (case dict_get consumer_info ''custom_id'' (JStr []) of
                  Inl e \<Rightarrow> Raises e
                | Inr actual_custom_id \<Rightarrow>
                    (let passed = (status = 200 \<and> actual_custom_id = JStr expected_custom_id);
                         details =
                           [(''api_key_used'', JStr api_key),
                            (''expected_custom_id'', JStr expected_custom_id),
                            (''actual_custom_id'', actual_custom_id),
                            (''consumer_info'', consumer_info),
                            (''identity_correct'', JBool passed)];
                         artifacts =
                           [\<lparr> type = ''http_response'',
                              description = ''Whoami response showing consumer identity'',
                              data = response_data \<rparr>]
                     in Returns (outcome_of passed) details artifacts))))"

definition RT006_ConsumerIdentityInjected :: "string \<Rightarrow> string \<Rightarrow> BaseTest" where
  "RT006_ConsumerIdentityInjected api_key expected_custom_id =
     \<lparr> BaseTest.test_id = ''RT-006'',
       BaseTest.test_name = ''Consumer identity injected correctly'',
       BaseTest.control_mapping = [''CC6.1'', ''CC6.3''],
       execute = RT006_execute api_key expected_custom_id \<rparr>"

section \<open>Configuration checks (tests/configuration.py)\<close>

definition CF001_execute :: "world \<Rightarrow> execute_outcome" where
  "CF001_execute w =
     (case get_plugins w (Some ''key-auth'') of
        Inl e \<Rightarrow> Raises e
      | Inr plugins \<Rightarrow>
          (let enabled_plugins = filter (\<lambda>p. truthy (enabled p)) plugins;
               passed = (length enabled_plugins > 0);
               plugin_configs =
                 JList (map (\<lambda>p. JObj [(''id'', KongPlugin.id' p),
                                        (''enabled'', enabled p),
                                        (''service_id'', service_id p),
                                        (''route_id'', route_id p)]) plugins);
               details =
                 [(''plugin_name'', JStr ''key-auth''),
                  (''total_found'', JInt (int (length plugins))),
                  (''enabled_count'', JInt (int (length enabled_plugins))),
                  (''plugin_configs'', plugin_configs),
                  (''auth_enforced'', JBool passed)];
               artifacts =
                 [\<lparr> type = ''config_snapshot'',
                    description = ''Key-auth plugin configuration'',
                    data = plugin_configs \<rparr>]
           in Returns (outcome_of passed) details artifacts))"

definition CF001_AuthPluginEnabled :: BaseTest where
  "CF001_AuthPluginEnabled =
     \<lparr> BaseTest.test_id = ''CF-001'',
       BaseTest.test_name = ''Key authentication plugin enabled'',
       BaseTest.control_mapping = [''CC6.1'', ''CC8.1''],
       execute = CF001_execute \<rparr>"

text \<open>One entry of \<open>plugin_configs\<close> in CF-002; \<open>p.config.get\<close> raises on a config that is no dictionary.\<close>

definition rate_limit_config :: "KongPlugin \<Rightarrow> exn + json" where
  "rate_limit_config p =
     then_do (dict_get (config p) ''minute'' JNull) (\<lambda>m.
     then_do (dict_get (config p) ''hour'' JNull) (\<lambda>h.
     then_do (dict_get (config p) ''policy'' JNull) (\<lambda>pol.
       Inr (JObj [(''id'', KongPlugin.id' p),
                  (''enabled'', enabled p),
                  (''consumer_id'', consumer_id p),
                  (''config'', JObj [(''minute'', m), (''hour'', h), (''policy'', pol)])]))))"

definition CF002_execute :: "world \<Rightarrow> execute_outcome" where
  "CF002_execute w =
     (case get_plugins w (Some ''rate-limiting'') of
        Inl e \<Rightarrow> Raises e
      | Inr plugins \<Rightarrow>
          (let consumer_plugins =
                 filter (\<lambda>p. truthy (consumer_id p) \<and> truthy (enabled p)) plugins;
               passed = (length consumer_plugins > 0)
           in case collect (map rate_limit_config plugins) of
                Inl e \<Rightarrow> Raises e
              | Inr configs \<Rightarrow>
                  (let plugin_configs = JList configs;
                       details =
                         [(''plugin_name'', JStr ''rate-limiting''),
                          (''total_found'', JInt (int (length plugins))),
                          (''consumer_scoped_count'', JInt (int (length consumer_plugins))),
                          (''plugin_configs'', plugin_configs),
                          (''rate_limiting_configured'', JBool passed)];
                       artifacts =
                         [\<lparr> type = ''config_snapshot'',
                            description = ''Rate limiting plugin configuration'',
                            data = plugin_configs \<rparr>]
                   in Returns (outcome_of passed) details artifacts)))"

definition CF002_RateLimitPluginEnabled :: BaseTest where
  "CF002_RateLimitPluginEnabled =
     \<lparr> BaseTest.test_id = ''CF-002'',
       BaseTest.test_name = ''Rate limiting plugin enabled per consumer'',
       BaseTest.control_mapping = [''CC6.1'', ''CC6.3'', ''CC8.1''],
       execute = CF002_execute \<rparr>"

text \<open>
  The set \<open>consumers_with_limits\<close> of CF-003 and the loop over the consumers, which pairs
  each consumer with its \<open>has_limit\<close>.
\<close>

definition consumers_with_limits :: "KongPlugin list \<Rightarrow> exn + json list" where
  "consumers_with_limits rate_limit_plugins =
     set_of (map consumer_id
               (filter (\<lambda>p. truthy (consumer_id p) \<and> truthy (enabled p)) rate_limit_plugins))"

fun coverage_loop :: "json list \<Rightarrow> KongConsumer list \<Rightarrow> exn + (KongConsumer \<times> bool) list" where
  "coverage_loop limits [] = Inr []"
| "coverage_loop limits (consumer # consumers) =
     then_do (set_member (KongConsumer.id' consumer) limits) (\<lambda>has_limit.
     then_do (coverage_loop limits consumers) (\<lambda>rest. Inr ((consumer, has_limit) # rest)))"

definition coverage_entry :: "KongConsumer \<times> bool \<Rightarrow> json" where
  "coverage_entry ch =
     JObj [(''id'', KongConsumer.id' (fst ch)),
           (''username'', username (fst ch)),
           (''custom_id'', custom_id (fst ch)),
           (''has_rate_limit'', JBool (snd ch))]"

text \<open>
  The \<open>details\<close> of CF-003 are modelled without their key \<open>coverage_percent\<close>, a
  floating-point number rounded to one decimal.
\<close>

definition CF003_execute :: "world \<Rightarrow> execute_outcome" where
  "CF003_execute w =
     (case get_consumers w of
        Inl e \<Rightarrow> Raises e
      | Inr consumers \<Rightarrow>
     (case get_plugins w (Some ''rate-limiting'') of
        Inl e \<Rightarrow> Raises e
      | Inr rate_limit_plugins \<Rightarrow>
     (case consumers_with_limits rate_limit_plugins of
        Inl e \<Rightarrow> Raises e
      | Inr limits \<Rightarrow>
     (case coverage_loop limits consumers of
        Inl e \<Rightarrow> Raises e
      | Inr coverage \<Rightarrow>
          (let consumer_coverage = map coverage_entry coverage;
               missing_limits = map (\<lambda>ch. username (fst ch)) (filter (\<lambda>ch. \<not> snd ch) coverage);
               total_consumers = length consumers;
               covered_consumers = length (filter snd coverage);
               passed = (length missing_limits = 0 \<and> total_consumers > 0);
               details =
                 [(''total_consumers'', JInt (int total_consumers)),
                  (''consumers_with_limits'', JInt (int covered_consumers)),
                  (''missing_limits'', JList missing_limits),
                  (''consumer_coverage'', JList consumer_coverage),
                  (''full_coverage'', JBool passed)];
               artifacts =
                 [\<lparr> type = ''config_snapshot'',
                    description = ''Consumer rate limit coverage'',
                    data = JList consumer_coverage \<rparr>]
           in Returns (outcome_of passed) details artifacts)))))"

definition CF003_AllConsumersHaveLimits :: BaseTest where
  "CF003_AllConsumersHaveLimits =
     \<lparr> BaseTest.test_id = ''CF-003'',
       BaseTest.test_name = ''All consumers have rate limits configured'',
       BaseTest.control_mapping = [''CC6.2'', ''CC6.3''],
       execute = CF003_execute \<rparr>"

section \<open>Evidence sink (clients/drata.py)\<close>

record DrataEvidencePayload =
  test_id :: string
  test_name :: string
  result :: string
  timestamp :: string
  control_ids :: "string list"
  details :: "(string \<times> json) list"
  artifacts :: "json list"

definition to_dict :: "DrataEvidencePayload \<Rightarrow> json" where
  "to_dict self =
     JObj [(''externalId'', JStr (DrataEvidencePayload.test_id self)),
           (''name'', JStr (DrataEvidencePayload.test_name self)),
           (''status'', JStr (if DrataEvidencePayload.result self = ''PASS''
                              then ''PASSING'' else ''FAILING'')),
           (''lastTestedAt'', JStr (DrataEvidencePayload.timestamp self)),
           (''controlIds'', JList (map JStr (control_ids self))),
           (''evidence'', JObj [(''details'', JObj (DrataEvidencePayload.details self)),
                                (''artifacts'', JList (DrataEvidencePayload.artifacts self))])]"

text \<open>
  The two sinks. The live client is its network: \<open>posted\<close> lists, oldest first, the
  requests it has sent (path and JSON body), and \<open>drata_session k path body\<close> is the
  outcome of its \<open>k\<close>-th request: a raise (transport failure, non-2xx status, a body
  that is not JSON) or the decoded response. The mock client is its two attributes.
\<close>

datatype drata_client =
    DrataClient (posted: "(string \<times> json) list")
                (drata_session: "nat \<Rightarrow> string \<Rightarrow> json \<Rightarrow> exn + json")
  | DrataMockClient (verbose: bool) (submitted_evidence: "json list")

fun decimal :: "nat \<Rightarrow> string" where
  "decimal n =
     (if n < 10 then [char_of (48 + n)] else decimal (n div 10) @ [char_of (48 + n mod 10)])"

text \<open>
  \<open>submit_external_evidence\<close> of either class: the client afterwards and what the call
  returns or raises. What the mock prints when verbose is not modelled.
\<close>

fun submit_external_evidence ::
  "drata_client \<Rightarrow> string \<Rightarrow> DrataEvidencePayload \<Rightarrow> drata_client \<times> (exn + json)" where
  "submit_external_evidence (DrataClient sent session) monitor_id evidence =
     (let payload = to_dict evidence;
          path = ''/public/monitors/'' @ monitor_id @ ''/evidence''
      in (DrataClient (sent @ [(path, payload)]) session, session (length sent) path payload))"
| "submit_external_evidence (DrataMockClient v submitted) monitor_id evidence =
     (let payload = to_dict evidence;
          submitted' = submitted @ [JObj [(''monitor_id'', JStr monitor_id), (''payload'', payload)]]
      in (DrataMockClient v submitted',
          Inr (JObj [(''status'', JStr ''mock''),
                     (''id'', JStr (''mock-'' @ decimal (length submitted')))])))"

section \<open>Orchestrator (config.py, main.py)\<close>

record KongConfig =
  konnect_token :: string
  konnect_region :: string
  control_plane_name :: string
  dataplane_url :: string
  free_trial_key :: string
  pro_key :: string

record DrataConfig =
  api_key :: string
  api_base :: string

record GCPConfig =
  project_id :: string
  region :: string

record Config =
  kong :: KongConfig
  drata :: DrataConfig
  gcp :: GCPConfig
  dry_run :: bool
  verbose :: bool

definition create_tests :: "Config \<Rightarrow> BaseTest list" where
  "create_tests cfg =
     [RT001_RateLimitFreeTier (free_trial_key (kong cfg)),
      RT002_RateLimitProTier (pro_key (kong cfg)),
      RT003_InvalidKeyRejected,
      RT004_MissingKeyRejected,
      RT005_ValidKeyAccepted (pro_key (kong cfg)),
      RT006_ConsumerIdentityInjected (pro_key (kong cfg)) ''tier_pro'',
      CF001_AuthPluginEnabled,
      CF002_RateLimitPluginEnabled,
      CF003_AllConsumersHaveLimits]"

text \<open>
  \<open>run_tests\<close>: the checks run one after the other; \<open>env i\<close> is what the \<open>i\<close>-th of them
  finds, the readings of the clock and the world. Printing to the console is not
  modelled, here and below.
\<close>

definition run_tests :: "BaseTest list \<Rightarrow> (nat \<Rightarrow> clock \<times> world) \<Rightarrow> Evidence list" where
  "run_tests tests env =
     map (\<lambda>(i, test). run test (fst (env i)) (snd (env i))) (enumerate 0 tests)"

text \<open>\<open>sum(1 for r in results if r.result == s)\<close>, the counts of \<open>print_summary\<close>.\<close>

definition count_result :: "string \<Rightarrow> Evidence list \<Rightarrow> nat" where
  "count_result s results = length (filter (\<lambda>r. Evidence.result r = s) results)"

record summary =
  total :: nat
  passed :: nat
  failed :: nat
  errors :: nat

definition print_summary :: "Evidence list \<Rightarrow> summary" where
  "print_summary results =
     \<lparr> total = length results,
       passed = count_result ''PASS'' results,
       failed = count_result ''FAIL'' results,
       errors = count_result ''ERROR'' results \<rparr>"

definition monitor_id_of :: "Evidence \<Rightarrow> string" where
  "monitor_id_of evidence = ''kong-'' @ lower (Evidence.test_id evidence)"

definition payload_of :: "Evidence \<Rightarrow> DrataEvidencePayload" where
  "payload_of evidence =
     \<lparr> DrataEvidencePayload.test_id = Evidence.test_id evidence,
       DrataEvidencePayload.test_name = Evidence.test_name evidence,
       DrataEvidencePayload.result = Evidence.result evidence,
       DrataEvidencePayload.timestamp = Evidence.timestamp evidence,
       control_ids = Evidence.control_mapping evidence,
       DrataEvidencePayload.details = Evidence.details evidence,
       DrataEvidencePayload.artifacts = Evidence.artifacts evidence \<rparr>"

text \<open>
  \<open>push_to_drata\<close>: the loop over the results returns the client as the pushes leave
  it. A raise of \<open>submit_external_evidence\<close> is caught and the loop goes on.
\<close>

fun push_to_drata :: "Evidence list \<Rightarrow> drata_client \<Rightarrow> bool \<Rightarrow> drata_client" where
  "push_to_drata [] drata_client dry = drata_client"
| "push_to_drata (evidence # results) drata_client dry =
     (let payload = payload_of evidence;
          monitor_id = monitor_id_of evidence
      in if dry then push_to_drata results drata_client dry
         else push_to_drata results
                (fst (submit_external_evidence drata_client monitor_id payload)) dry)"

text \<open>\<open>sum(1 for r in results if r.result in ["FAIL", "ERROR"])\<close> and the exit code.\<close>

definition failed_count :: "Evidence list \<Rightarrow> nat" where
  "failed_count results =
     length (filter (\<lambda>r. Evidence.result r \<in> set [''FAIL'', ''ERROR'']) results)"

definition exit_code :: "Evidence list \<Rightarrow> int" where
  "exit_code results = (if failed_count results > 0 then 1 else 0)"

record Namespace =
  dry_run :: bool
  verbose :: bool
  output_file :: "string option"

text \<open>\<open>Evidence.to_dict\<close>: \<open>asdict\<close> of the record.\<close>

definition Evidence_to_dict :: "Evidence \<Rightarrow> json" where
  "Evidence_to_dict e =
     JObj [(''test_id'', JStr (Evidence.test_id e)),
           (''test_name'', JStr (Evidence.test_name e)),
           (''timestamp'', JStr (Evidence.timestamp e)),
           (''result'', JStr (Evidence.result e)),
           (''control_mapping'', JList (map JStr (Evidence.control_mapping e))),
           (''duration_ms'', JInt (duration_ms e)),
           (''details'', JObj (Evidence.details e)),
           (''artifacts'', JList (Evidence.artifacts e)),
           (''error_message'', (case error_message e of None \<Rightarrow> JNull | Some m \<Rightarrow> JStr m))]"

text \<open>
  The machine \<open>main\<close> runs on, as far as the export of the results goes: \<open>export_now\<close>
  is the reading of \<open>datetime.now\<close> that stamps the document, and \<open>write_file path doc\<close>
  is the outcome of opening the path for writing and dumping the document into it,
  \<open>Some e\<close> when that raises (a directory that does not exist, no permission).
\<close>

record host =
  export_now :: string
  write_file :: "string \<Rightarrow> json \<Rightarrow> exn option"

definition output_data :: "host \<Rightarrow> Evidence list \<Rightarrow> json" where
  "output_data h rs =
     JObj [(''timestamp'', JStr (export_now h)), (''results'', JList (map Evidence_to_dict rs))]"

text \<open>
  The block \<open>if args.output:\<close> of \<open>main\<close>: nothing is written without a path that is
  not empty; \<open>Some e\<close> is the failure the write raises, which nothing catches.
\<close>

definition write_results :: "Namespace \<Rightarrow> host \<Rightarrow> Evidence list \<Rightarrow> exn option" where
  "write_results args h rs =
     (case output_file args of
        None \<Rightarrow> None
      | Some path \<Rightarrow> if path = [] then None else write_file h path (output_data h rs))"

text \<open>The override of the loaded configuration by the command line.\<close>

definition effective_config :: "Namespace \<Rightarrow> Config \<Rightarrow> Config" where
  "effective_config args config0 =
     (if Namespace.dry_run args
      then config0 \<lparr> Config.dry_run := True,
                     Config.verbose := (Namespace.verbose args \<or> Config.verbose config0) \<rparr>
      else config0)"

record main_outcome =
  results :: "Evidence list"
  sink :: "drata_client option"
  exit_status :: int

text \<open>
  \<open>main\<close>: \<open>loaded\<close> is the outcome of \<open>load_config\<close> (\<open>None\<close>: a required variable is
  missing, and the process exits with 1 before any check runs), \<open>session\<close> the network
  of the live sink, \<open>h\<close> the machine. A write of the results that raises is an uncaught
  exception: the process ends there with exit status 1, before the failed results are
  counted.
\<close>

definition main ::
  "Namespace \<Rightarrow> Config option \<Rightarrow> (nat \<Rightarrow> clock \<times> world) \<Rightarrow>
   (nat \<Rightarrow> string \<Rightarrow> json \<Rightarrow> exn + json) \<Rightarrow> host \<Rightarrow> main_outcome" where
  "main args loaded env session h =
     (case loaded of
        None \<Rightarrow> \<lparr> results = [], sink = None, exit_status = 1 \<rparr>
      | Some config0 \<Rightarrow>
          (let cfg = effective_config args config0;
               drata_client =
                 (if Config.dry_run cfg then DrataMockClient (Config.verbose cfg) []
                  else DrataClient [] session);
               tests = create_tests cfg;
               rs = run_tests tests env;
               summ = print_summary rs;
               drata_client' = push_to_drata rs drata_client (Config.dry_run cfg)
           in case write_results args h rs of
                Some e \<Rightarrow> \<lparr> results = rs, sink = Some drata_client', exit_status = 1 \<rparr>
              | None \<Rightarrow> \<lparr> results = rs, sink = Some drata_client', exit_status = exit_code rs \<rparr>))"

section \<open>Mocked collaborators for the examples\<close>

text \<open>
  A data plane that answers the \<open>k\<close>-th request with the \<open>k\<close>-th status of a list (no
  headers, no JSON body), one that answers every request with one status and one JSON
  body, an admin API that lists given consumers and plugins, and a gateway nothing
  reaches.
\<close>

definition unreachable :: world where
  "unreachable =
     \<lparr> dataplane_session = (\<lambda>k path key. Inl ''timed out''),
       konnect_consumers = Inl ''timed out'',
       konnect_plugins = Inl ''timed out'' \<rparr>"

definition mock_dataplane :: "int list \<Rightarrow> world" where
  "mock_dataplane codes =
     unreachable \<lparr> dataplane_session :=
       (\<lambda>k path key. if k < length codes
                      then Inr \<lparr> status_code = codes ! k, headers = [], json_body = None \<rparr>
                      else Inl ''timed out'') \<rparr>"

definition mock_response :: "int \<Rightarrow> json \<Rightarrow> world" where
  "mock_response code body =
     unreachable \<lparr> dataplane_session :=
       (\<lambda>k path key. Inr \<lparr> status_code = code, headers = [], json_body = Some body \<rparr>) \<rparr>"

definition mock_konnect :: "json list \<Rightarrow> json list \<Rightarrow> world" where
  "mock_konnect consumers plugins =
     unreachable \<lparr> konnect_consumers := Inr consumers, konnect_plugins := Inr plugins \<rparr>"

definition at_noon :: "rat \<Rightarrow> rat \<Rightarrow> clock" where
  "at_noon t0 t1 = \<lparr> utc_now = ''2024-01-01T12:00:00+00:00'', time_start = t0, time_end = t1 \<rparr>"

definition example_config :: Config where
  "example_config =
     \<lparr> kong = \<lparr> konnect_token = ''kpat'', konnect_region = ''us'',
                 control_plane_name = ''kong-hybrid-rate-limit-demo'',
                 dataplane_url = ''http://localhost:8000'',
                 free_trial_key = ''free-trial-key'', pro_key = ''pro-key'' \<rparr>,
       drata = \<lparr> api_key = ''drata-key'', api_base = ''https://public-api.drata.com'' \<rparr>,
       gcp = \<lparr> project_id = ''drata-kong-tests'', region = ''us-east1'' \<rparr>,
       dry_run = False,
       verbose = False \<rparr>"

text \<open>Items as the admin API lists them, for the examples.\<close>

definition consumer_alice :: json where
  "consumer_alice =
     JObj [(''id'', JStr ''c1''), (''username'', JStr ''alice''),
           (''custom_id'', JStr ''tier_free''), (''created_at'', JInt 1700000000)]"

definition consumer_bob :: json where
  "consumer_bob = JObj [(''id'', JStr ''c2''), (''username'', JStr ''bob'')]"

definition plugin_limit_alice :: json where
  "plugin_limit_alice =
     JObj [(''id'', JStr ''p1''), (''name'', JStr ''rate-limiting''), (''enabled'', JBool True),
           (''config'', JObj [(''minute'', JInt 5), (''policy'', JStr ''local'')]),
           (''consumer'', JObj [(''id'', JStr ''c1'')])]"

text \<open>Two plugins whose configuration says nothing about \<open>enabled\<close>.\<close>

definition plugin_key_auth_bare :: json where
  "plugin_key_auth_bare = JObj [(''id'', JStr ''p0''), (''name'', JStr ''key-auth'')]"


definition dry_run_args :: Namespace where
  "dry_run_args = \<lparr> Namespace.dry_run = True, Namespace.verbose = False, output_file = None \<rparr>"

text \<open>A machine where every write succeeds, and one where none does.\<close>

definition writable :: host where
  "writable = \<lparr> export_now = ''2024-01-01T12:05:00+00:00'', write_file = (\<lambda>path doc. None) \<rparr>"

definition unwritable :: host where
  "unwritable =
     \<lparr> export_now = ''2024-01-01T12:05:00+00:00'',
       write_file = (\<lambda>path doc. Some ''[Errno 2] No such file or directory'') \<rparr>"

definition output_args :: Namespace where
  "output_args =
     \<lparr> Namespace.dry_run = False, Namespace.verbose = False,
       output_file = Some ''/missing/results.json'' \<rparr>"

text \<open>A gateway on which each of the nine checks, in the order of \<open>create_tests\<close>, passes.\<close>

definition all_green :: "nat \<Rightarrow> clock \<times> world" where
  "all_green i =
     (at_noon 10 11,
      (if i < 9
       then [mock_dataplane [200, 200, 200, 200, 200, 429, 429, 429],
             mock_dataplane [200, 200, 200, 200, 200, 200, 200, 200, 200, 200],
             mock_dataplane [401],
             mock_dataplane [401],
             mock_response 200 (JObj [(''status'', JStr ''ok'')]),
             mock_response 200 (JObj [(''consumer'', JObj [(''custom_id'', JStr ''tier_pro'')])]),
             mock_konnect [] [plugin_key_auth_bare],
             mock_konnect [] [plugin_limit_alice],
             mock_konnect [consumer_alice] [plugin_limit_alice]] ! i
       else unreachable))"

section \<open>The run wrapper\<close>

lemma TestResult_value_range:
  "TestResult_value r \<in> {''PASS'', ''FAIL'', ''ERROR'', ''SKIP''}"
  by (cases r) simp_all

lemma TestResult_value_ERROR: "TestResult_value r = ''ERROR'' \<longleftrightarrow> r = ERROR"
  by (cases r) simp_all

lemma int_of_float_nonneg: "0 \<le> x \<Longrightarrow> 0 \<le> int_of_float x"
  by (simp add: int_of_float_def)

lemma elapsed_ms_nonneg: "time_start clk \<le> time_end clk \<Longrightarrow> 0 \<le> elapsed_ms clk"
  by (simp add: elapsed_ms_def int_of_float_nonneg)

lemma run_result:
  "Evidence.result (run t clk w) =
     (case execute t w of Returns r d a \<Rightarrow> TestResult_value r | Raises e \<Rightarrow> ''ERROR'')"
  by (simp add: run_def split: execute_outcome.split)

lemma run_error_message:
  "error_message (run t clk w) =
     (case execute t w of Returns r d a \<Rightarrow> None | Raises e \<Rightarrow> Some e)"
  by (simp add: run_def split: execute_outcome.split)

lemma run_duration: "duration_ms (run t clk w) = elapsed_ms clk"
  by (simp add: run_def split: execute_outcome.split)

lemma run_result_range:
  "Evidence.result (run t clk w) \<in> {''PASS'', ''FAIL'', ''ERROR'', ''SKIP''}"
proof (cases "execute t w")
  case (Returns r d a)
  then show ?thesis using TestResult_value_range [of r] by (simp add: run_result)
next
  case (Raises e)
  then show ?thesis by (simp add: run_result)
qed

lemma get_unreachable: "get unreachable k path key = Inl ''timed out''"
  by (simp add: get_def unreachable_def)

text \<open>
  Claim C1, as the code has it. \<open>run\<close> is a total function into \<open>Evidence\<close>: whatever
  \<open>execute\<close> does, returning or raising, there is exactly one Evidence record and nothing
  is raised past \<open>run\<close>. Its result is one of PASS, FAIL, ERROR and SKIP. Its
  \<open>duration_ms\<close> is an integer, and it is non-negative whenever the second reading of
  \<open>time.time()\<close> is not earlier than the first. When \<open>execute\<close> raises, the record has
  result ERROR, empty details, empty artifacts and the text of the failure as its
  \<open>error_message\<close>.
\<close>

theorem run_always_evidence:
  "Evidence.result (run t clk w) \<in> {''PASS'', ''FAIL'', ''ERROR'', ''SKIP''} \<and>
   (time_start clk \<le> time_end clk \<longrightarrow> 0 \<le> duration_ms (run t clk w)) \<and>
   (\<forall>e. execute t w = Raises e \<longrightarrow>
      Evidence.result (run t clk w) = ''ERROR'' \<and>
      Evidence.details (run t clk w) = [] \<and>
      Evidence.artifacts (run t clk w) = [] \<and>
      error_message (run t clk w) = Some e)"
proof (intro conjI allI impI)
  show "Evidence.result (run t clk w) \<in> {''PASS'', ''FAIL'', ''ERROR'', ''SKIP''}"
    by (rule run_result_range)
next
  assume "time_start clk \<le> time_end clk"
  then show "0 \<le> duration_ms (run t clk w)"
    by (simp add: run_duration elapsed_ms_nonneg)
next
  fix e assume r: "execute t w = Raises e"
  show "Evidence.result (run t clk w) = ''ERROR''" using r by (simp add: run_def)
  show "Evidence.details (run t clk w) = []" using r by (simp add: run_def)
  show "Evidence.artifacts (run t clk w) = []" using r by (simp add: run_def)
  show "error_message (run t clk w) = Some e" using r by (simp add: run_def)
qed

text \<open>
  The invalid-key check against a gateway that times out, between two readings of the
  clock a quarter of a second apart.
\<close>

theorem run_always_evidence_witness:
  "time_start (at_noon 10 (41 / 4)) \<le> time_end (at_noon 10 (41 / 4)) \<and>
   execute RT003_InvalidKeyRejected unreachable = Raises ''timed out'' \<and>
   0 \<le> duration_ms (run RT003_InvalidKeyRejected (at_noon 10 (41 / 4)) unreachable) \<and>
   Evidence.result (run RT003_InvalidKeyRejected (at_noon 10 (41 / 4)) unreachable) = ''ERROR'' \<and>
   Evidence.details (run RT003_InvalidKeyRejected (at_noon 10 (41 / 4)) unreachable) = [] \<and>
   Evidence.artifacts (run RT003_InvalidKeyRejected (at_noon 10 (41 / 4)) unreachable) = [] \<and>
   error_message (run RT003_InvalidKeyRejected (at_noon 10 (41 / 4)) unreachable)
     = Some ''timed out''"
proof -
  have c: "time_start (at_noon 10 (41 / 4)) \<le> time_end (at_noon 10 (41 / 4))"
    by (simp add: at_noon_def)
  have r: "execute RT003_InvalidKeyRejected unreachable = Raises ''timed out''"
    by (simp add: RT003_InvalidKeyRejected_def RT003_execute_def get_unreachable)
  show ?thesis
    using c r run_always_evidence [of RT003_InvalidKeyRejected "at_noon 10 (41 / 4)" unreachable]
    by blast
qed

text \<open>
  Claim C1 as stated fails: the wall clock is set back by one second while the
  invalid-key check runs (it reads 10.0 before \<open>execute\<close> and 9.0 after), the gateway
  answers 401, and the record \<open>run\<close> returns has result PASS and a duration of -1000 ms.
\<close>

theorem run_negative_duration:
  "Evidence.result (run RT003_InvalidKeyRejected (at_noon 10 9) (mock_dataplane [401])) = ''PASS'' \<and>
   duration_ms (run RT003_InvalidKeyRejected (at_noon 10 9) (mock_dataplane [401])) = - 1000 \<and>
   \<not> 0 \<le> duration_ms (run RT003_InvalidKeyRejected (at_noon 10 9) (mock_dataplane [401]))"
  by (simp add: run_def RT003_InvalidKeyRejected_def RT003_execute_def get_def mock_dataplane_def
      unreachable_def Let_def outcome_of_def elapsed_ms_def int_of_float_def at_noon_def)

section \<open>When the error message is set\<close>

lemma RT001_no_ERROR: "RT001_execute k w \<noteq> Returns ERROR d a"
  by (simp add: RT001_execute_def Let_def outcome_of_def)

lemma RT002_no_ERROR: "RT002_execute k w \<noteq> Returns ERROR d a"
  by (simp add: RT002_execute_def Let_def outcome_of_def)

lemma RT003_no_ERROR: "RT003_execute w \<noteq> Returns ERROR d a"
  by (simp add: RT003_execute_def Let_def outcome_of_def split: sum.split)

lemma RT004_no_ERROR: "RT004_execute w \<noteq> Returns ERROR d a"
  by (simp add: RT004_execute_def Let_def outcome_of_def split: sum.split)

lemma RT005_no_ERROR: "RT005_execute k w \<noteq> Returns ERROR d a"
  by (simp add: RT005_execute_def Let_def outcome_of_def split: prod.split)

lemma RT006_no_ERROR: "RT006_execute k x w \<noteq> Returns ERROR d a"
  by (simp add: RT006_execute_def Let_def outcome_of_def split: prod.split sum.split)

lemma CF001_no_ERROR: "CF001_execute w \<noteq> Returns ERROR d a"
  by (simp add: CF001_execute_def Let_def outcome_of_def split: sum.split)

lemma CF002_no_ERROR: "CF002_execute w \<noteq> Returns ERROR d a"
  by (simp add: CF002_execute_def Let_def outcome_of_def split: sum.split)

lemma CF003_no_ERROR: "CF003_execute w \<noteq> Returns ERROR d a"
  by (simp add: CF003_execute_def Let_def outcome_of_def split: sum.split)

lemma suite_no_ERROR:
  "t \<in> set (create_tests cfg) \<Longrightarrow> execute t w \<noteq> Returns ERROR d a"
  by (auto simp: create_tests_def RT001_RateLimitFreeTier_def RT002_RateLimitProTier_def
      RT003_InvalidKeyRejected_def RT004_MissingKeyRejected_def RT005_ValidKeyAccepted_def
      RT006_ConsumerIdentityInjected_def CF001_AuthPluginEnabled_def
      CF002_RateLimitPluginEnabled_def CF003_AllConsumersHaveLimits_def
      RT001_no_ERROR RT002_no_ERROR RT003_no_ERROR RT004_no_ERROR RT005_no_ERROR
      RT006_no_ERROR CF001_no_ERROR CF002_no_ERROR CF003_no_ERROR)

text \<open>
  Claim C2, as the code has it. The record of \<open>run\<close> carries an \<open>error_message\<close> exactly
  when \<open>execute\<close> raised, and then its result is ERROR; so a record whose result is not
  ERROR has no \<open>error_message\<close>. For the nine checks that \<open>create_tests\<close> builds, whose
  \<open>execute\<close> returns PASS or FAIL only, the \<open>error_message\<close> is set if and only if the
  result is ERROR.
\<close>

theorem error_message_iff_raised:
  "(error_message (run t clk w) \<noteq> None \<longleftrightarrow> (\<exists>e. execute t w = Raises e)) \<and>
   ((\<exists>e. execute t w = Raises e) \<longrightarrow> Evidence.result (run t clk w) = ''ERROR'') \<and>
   (Evidence.result (run t clk w) \<noteq> ''ERROR'' \<longrightarrow> error_message (run t clk w) = None) \<and>
   (t \<in> set (create_tests cfg) \<longrightarrow>
      (error_message (run t clk w) \<noteq> None \<longleftrightarrow> Evidence.result (run t clk w) = ''ERROR''))"
proof (cases "execute t w")
  case (Returns r d a)
  have "t \<in> set (create_tests cfg) \<Longrightarrow> r \<noteq> ERROR"
    using suite_no_ERROR [of t cfg w d a] Returns by auto
  then show ?thesis
    using Returns by (auto simp: run_error_message run_result TestResult_value_ERROR)
next
  case (Raises e)
  then show ?thesis by (simp add: run_error_message run_result)
qed

text \<open>
  The invalid-key check of the suite, once against a gateway that times out (it raises:
  ERROR with a message) and once against one that answers 401 (PASS without one).
\<close>

theorem error_message_iff_raised_witness:
  "RT003_InvalidKeyRejected \<in> set (create_tests example_config) \<and>
   (\<exists>e. execute RT003_InvalidKeyRejected unreachable = Raises e) \<and>
   Evidence.result (run RT003_InvalidKeyRejected (at_noon 10 11) unreachable) = ''ERROR'' \<and>
   error_message (run RT003_InvalidKeyRejected (at_noon 10 11) unreachable) \<noteq> None \<and>
   Evidence.result (run RT003_InvalidKeyRejected (at_noon 10 11) (mock_dataplane [401])) \<noteq> ''ERROR'' \<and>
   error_message (run RT003_InvalidKeyRejected (at_noon 10 11) (mock_dataplane [401])) = None"
proof -
  have m: "RT003_InvalidKeyRejected \<in> set (create_tests example_config)"
    by (simp add: create_tests_def)
  have r: "\<exists>e. execute RT003_InvalidKeyRejected unreachable = Raises e"
    by (simp add: RT003_InvalidKeyRejected_def RT003_execute_def get_unreachable)
  have p: "Evidence.result (run RT003_InvalidKeyRejected (at_noon 10 11) (mock_dataplane [401]))
             \<noteq> ''ERROR''"
    by (simp add: run_def RT003_InvalidKeyRejected_def RT003_execute_def get_def
        mock_dataplane_def unreachable_def Let_def outcome_of_def)
  show ?thesis
    using m r p
      error_message_iff_raised [of RT003_InvalidKeyRejected "at_noon 10 11" unreachable
        example_config]
      error_message_iff_raised [of RT003_InvalidKeyRejected "at_noon 10 11" "mock_dataplane [401]"
        example_config]
    by blast
qed

text \<open>
  Claim C2 as stated fails: a check whose \<open>execute\<close> returns ERROR normally gets a
  record with result ERROR and no \<open>error_message\<close>.
\<close>

theorem normal_ERROR_without_message:
  "Evidence.result
     (run \<lparr> BaseTest.test_id = ''XX-001'', BaseTest.test_name = ''Probe'',
            BaseTest.control_mapping = [''CC6.1''],
            execute = (\<lambda>w. Returns ERROR [] []) \<rparr> (at_noon 10 11) unreachable) = ''ERROR'' \<and>
   error_message
     (run \<lparr> BaseTest.test_id = ''XX-001'', BaseTest.test_name = ''Probe'',
            BaseTest.control_mapping = [''CC6.1''],
            execute = (\<lambda>w. Returns ERROR [] []) \<rparr> (at_noon 10 11) unreachable) = None"
  by (simp add: run_def)

section \<open>Transport failures of the data plane\<close>

lemma RT005_transport_failure:
  "get w 0 ''/api/health'' (Some key) = Inl e \<Longrightarrow>
   \<exists>d a. RT005_execute key w = Returns FAIL d a \<and> map_of d ''actual_status'' = Some (JInt 0)"
  by (simp add: RT005_execute_def health_check_def Let_def outcome_of_def)

lemma RT006_transport_failure:
  "get w 0 ''/api/whoami'' (Some key) = Inl e \<Longrightarrow>
   \<exists>d a. RT006_execute key expected w = Returns FAIL d a"
  by (simp add: RT006_execute_def get_whoami_def Let_def outcome_of_def)

lemma test_rate_limit_failure:
  "k < n \<Longrightarrow> get w k path (Some key) = Inl e \<Longrightarrow> test_rate_limit w key path n ! k = 0"
  by (simp add: test_rate_limit_def)

text \<open>
  Claim C3, as the code has it. A request of the data plane that times out or errors
  (\<open>get\<close> raises) becomes outcome ERROR through the \<open>run\<close> wrapper for the checks that
  call \<open>get\<close> themselves, the invalid-key and the missing-key check. The valid-key check
  and the identity-injection check go through \<open>health_check\<close> and \<open>get_whoami\<close>, which
  catch the failure and report status code 0: their Evidence has result FAIL and no
  \<open>error_message\<close>. In the burst of the rate-limit checks the failed request is the
  status code 0 of the list.
\<close>

theorem transport_failure_outcomes:
  "(get w 0 ''/api/hello'' (Some ''invalid-key-12345'') = Inl e \<longrightarrow>
      Evidence.result (run RT003_InvalidKeyRejected clk w) = ''ERROR'' \<and>
      error_message (run RT003_InvalidKeyRejected clk w) = Some e) \<and>
   (get w 0 ''/api/hello'' None = Inl e \<longrightarrow>
      Evidence.result (run RT004_MissingKeyRejected clk w) = ''ERROR'' \<and>
      error_message (run RT004_MissingKeyRejected clk w) = Some e) \<and>
   (get w 0 ''/api/health'' (Some key) = Inl e \<longrightarrow>
      Evidence.result (run (RT005_ValidKeyAccepted key) clk w) = ''FAIL'' \<and>
      error_message (run (RT005_ValidKeyAccepted key) clk w) = None) \<and>
   (get w 0 ''/api/whoami'' (Some key) = Inl e \<longrightarrow>
      Evidence.result (run (RT006_ConsumerIdentityInjected key expected) clk w) = ''FAIL'' \<and>
      error_message (run (RT006_ConsumerIdentityInjected key expected) clk w) = None) \<and>
   (k < n \<and> get w k path (Some key) = Inl e \<longrightarrow> test_rate_limit w key path n ! k = 0)"
proof (intro conjI impI)
  assume "get w 0 ''/api/hello'' (Some ''invalid-key-12345'') = Inl e"
  then have "execute RT003_InvalidKeyRejected w = Raises e"
    by (simp add: RT003_InvalidKeyRejected_def RT003_execute_def)
  then show "Evidence.result (run RT003_InvalidKeyRejected clk w) = ''ERROR''"
    and "error_message (run RT003_InvalidKeyRejected clk w) = Some e"
    by (simp_all add: run_result run_error_message)
next
  assume "get w 0 ''/api/hello'' None = Inl e"
  then have "execute RT004_MissingKeyRejected w = Raises e"
    by (simp add: RT004_MissingKeyRejected_def RT004_execute_def)
  then show "Evidence.result (run RT004_MissingKeyRejected clk w) = ''ERROR''"
    and "error_message (run RT004_MissingKeyRejected clk w) = Some e"
    by (simp_all add: run_result run_error_message)
next
  assume "get w 0 ''/api/health'' (Some key) = Inl e"
  then obtain d a where "execute (RT005_ValidKeyAccepted key) w = Returns FAIL d a"
    using RT005_transport_failure [of w key e] by (auto simp: RT005_ValidKeyAccepted_def)
  then show "Evidence.result (run (RT005_ValidKeyAccepted key) clk w) = ''FAIL''"
    and "error_message (run (RT005_ValidKeyAccepted key) clk w) = None"
    by (simp_all add: run_result run_error_message)
next
  assume "get w 0 ''/api/whoami'' (Some key) = Inl e"
  then obtain d a where
    "execute (RT006_ConsumerIdentityInjected key expected) w = Returns FAIL d a"
    using RT006_transport_failure [of w key e expected]
    by (auto simp: RT006_ConsumerIdentityInjected_def)
  then show "Evidence.result (run (RT006_ConsumerIdentityInjected key expected) clk w) = ''FAIL''"
    and "error_message (run (RT006_ConsumerIdentityInjected key expected) clk w) = None"
    by (simp_all add: run_result run_error_message)
next
  assume "k < n \<and> get w k path (Some key) = Inl e"
  then show "test_rate_limit w key path n ! k = 0"
    by (simp add: test_rate_limit_failure)
qed

text \<open>The four single-request checks and a burst of eight against a gateway that times out.\<close>

theorem transport_failure_outcomes_witness:
  "get unreachable 0 ''/api/hello'' (Some ''invalid-key-12345'') = Inl ''timed out'' \<and>
   get unreachable 0 ''/api/hello'' None = Inl ''timed out'' \<and>
   get unreachable 0 ''/api/health'' (Some ''pro-key'') = Inl ''timed out'' \<and>
   get unreachable 0 ''/api/whoami'' (Some ''pro-key'') = Inl ''timed out'' \<and>
   (0::nat) < 8 \<and> get unreachable 0 ''/api/hello'' (Some ''pro-key'') = Inl ''timed out'' \<and>
   Evidence.result (run RT003_InvalidKeyRejected (at_noon 10 11) unreachable) = ''ERROR'' \<and>
   Evidence.result (run RT004_MissingKeyRejected (at_noon 10 11) unreachable) = ''ERROR'' \<and>
   Evidence.result (run (RT005_ValidKeyAccepted ''pro-key'') (at_noon 10 11) unreachable) = ''FAIL'' \<and>
   Evidence.result
     (run (RT006_ConsumerIdentityInjected ''pro-key'' ''tier_pro'') (at_noon 10 11) unreachable)
       = ''FAIL'' \<and>
   test_rate_limit unreachable ''pro-key'' ''/api/hello'' 8 ! 0 = 0"
  using transport_failure_outcomes [of unreachable "''timed out''" "at_noon 10 11" "''pro-key''"
      "''tier_pro''" 0 8 "''/api/hello''"]
  by (simp add: get_unreachable)

text \<open>
  Claim C3 as stated fails: the request of the valid-key check and the request of the
  identity-injection check time out, and both Evidence records have result FAIL, not ERROR.
\<close>

theorem valid_key_transport_failure_is_FAIL:
  "get unreachable 0 ''/api/health'' (Some ''pro-key'') = Inl ''timed out'' \<and>
   Evidence.result (run (RT005_ValidKeyAccepted ''pro-key'') (at_noon 10 11) unreachable) = ''FAIL'' \<and>
   get unreachable 0 ''/api/whoami'' (Some ''pro-key'') = Inl ''timed out'' \<and>
   Evidence.result
     (run (RT006_ConsumerIdentityInjected ''pro-key'' ''tier_pro'') (at_noon 10 11) unreachable)
       = ''FAIL''"
  by (simp add: run_def RT005_ValidKeyAccepted_def RT005_execute_def health_check_def
      RT006_ConsumerIdentityInjected_def RT006_execute_def get_whoami_def
      get_unreachable Let_def outcome_of_def)

section \<open>Summary counts and exit code\<close>

lemma RT001_no_SKIP: "RT001_execute k w \<noteq> Returns SKIP d a"
  by (simp add: RT001_execute_def Let_def outcome_of_def)

lemma RT002_no_SKIP: "RT002_execute k w \<noteq> Returns SKIP d a"
  by (simp add: RT002_execute_def Let_def outcome_of_def)

lemma RT003_no_SKIP: "RT003_execute w \<noteq> Returns SKIP d a"
  by (simp add: RT003_execute_def Let_def outcome_of_def split: sum.split)

lemma RT004_no_SKIP: "RT004_execute w \<noteq> Returns SKIP d a"
  by (simp add: RT004_execute_def Let_def outcome_of_def split: sum.split)

lemma RT005_no_SKIP: "RT005_execute k w \<noteq> Returns SKIP d a"
  by (simp add: RT005_execute_def Let_def outcome_of_def split: prod.split)

lemma RT006_no_SKIP: "RT006_execute k x w \<noteq> Returns SKIP d a"
  by (simp add: RT006_execute_def Let_def outcome_of_def split: prod.split sum.split)

lemma CF001_no_SKIP: "CF001_execute w \<noteq> Returns SKIP d a"
  by (simp add: CF001_execute_def Let_def outcome_of_def split: sum.split)

lemma CF002_no_SKIP: "CF002_execute w \<noteq> Returns SKIP d a"
  by (simp add: CF002_execute_def Let_def outcome_of_def split: sum.split)

lemma CF003_no_SKIP: "CF003_execute w \<noteq> Returns SKIP d a"
  by (simp add: CF003_execute_def Let_def outcome_of_def split: sum.split)

lemma suite_no_SKIP:
  "t \<in> set (create_tests cfg) \<Longrightarrow> execute t w \<noteq> Returns SKIP d a"
  by (auto simp: create_tests_def RT001_RateLimitFreeTier_def RT002_RateLimitProTier_def
      RT003_InvalidKeyRejected_def RT004_MissingKeyRejected_def RT005_ValidKeyAccepted_def
      RT006_ConsumerIdentityInjected_def CF001_AuthPluginEnabled_def
      CF002_RateLimitPluginEnabled_def CF003_AllConsumersHaveLimits_def
      RT001_no_SKIP RT002_no_SKIP RT003_no_SKIP RT004_no_SKIP RT005_no_SKIP
      RT006_no_SKIP CF001_no_SKIP CF002_no_SKIP CF003_no_SKIP)

lemma TestResult_value_SKIP: "TestResult_value r = ''SKIP'' \<longleftrightarrow> r = SKIP"
  by (cases r) simp_all

lemma suite_run_no_SKIP:
  "t \<in> set (create_tests cfg) \<Longrightarrow> Evidence.result (run t clk w) \<noteq> ''SKIP''"
  using suite_no_SKIP [of t cfg w]
  by (cases "execute t w") (auto simp: run_result TestResult_value_SKIP)

lemma run_tests_set:
  "r \<in> set (run_tests tests env) \<Longrightarrow> \<exists>t \<in> set tests. \<exists>clk w. r = run t clk w"
proof -
  assume "r \<in> set (run_tests tests env)"
  then obtain i where i: "i < length tests"
    and r: "r = run (tests ! i) (fst (env i)) (snd (env i))"
    unfolding run_tests_def by (auto simp: in_set_enumerate_eq)
  have "tests ! i \<in> set tests" using i by (rule nth_mem)
  then show ?thesis using r by blast
qed

lemma run_tests_results:
  "r \<in> set (run_tests tests env) \<Longrightarrow>
   Evidence.result r \<in> {''PASS'', ''FAIL'', ''ERROR'', ''SKIP''}"
  using run_tests_set [of r tests env] run_result_range by blast

lemma suite_results_no_SKIP:
  "filter (\<lambda>r. Evidence.result r = ''SKIP'') (run_tests (create_tests cfg) env) = []"
  unfolding filter_empty_conv using run_tests_set suite_run_no_SKIP by blast

lemma results_partition:
  "\<forall>r \<in> set rs. Evidence.result r \<in> {''PASS'', ''FAIL'', ''ERROR'', ''SKIP''} \<Longrightarrow>
   length (filter (\<lambda>r. Evidence.result r = ''PASS'') rs)
     + length (filter (\<lambda>r. Evidence.result r = ''FAIL'') rs)
     + length (filter (\<lambda>r. Evidence.result r = ''ERROR'') rs)
     + length (filter (\<lambda>r. Evidence.result r = ''SKIP'') rs) = length rs"
  by (induction rs) auto

lemma failed_count_sum:
  "failed_count rs = length (filter (\<lambda>r. Evidence.result r = ''FAIL'') rs)
                      + length (filter (\<lambda>r. Evidence.result r = ''ERROR'') rs)"
  by (induction rs) (auto simp: failed_count_def)

lemma create_tests_effective: "create_tests (effective_config args cfg) = create_tests cfg"
  by (simp add: create_tests_def effective_config_def)

lemma main_results: "results (main args (Some cfg) env session h) = run_tests (create_tests cfg) env"
  by (simp add: main_def Let_def create_tests_effective split: option.split)

lemma main_exit_status:
  "exit_status (main args (Some cfg) env session h) =
     (case write_results args h (run_tests (create_tests cfg) env) of
        Some e \<Rightarrow> 1 | None \<Rightarrow> exit_code (run_tests (create_tests cfg) env))"
  by (simp add: main_def Let_def create_tests_effective split: option.split)

lemma write_results_Some:
  "(\<exists>e. write_results args h rs = Some e) \<longleftrightarrow>
   (\<exists>path e. output_file args = Some path \<and> path \<noteq> [] \<and>
             write_file h path (output_data h rs) = Some e)"
  by (auto simp: write_results_def split: option.splits if_splits)

text \<open>
  Claim C5, as the code has it. For the results of any run (any checks, whatever each of
  them finds), \<open>print_summary\<close> counts the total and the PASS, FAIL and ERROR results,
  and these three counts and the number of SKIP results add up to the total; for the
  nine checks of \<open>create_tests\<close>, which never skip, the three counts alone do. The
  exit code that the end of \<open>main\<close> computes from the results is 1 if the number of
  FAIL and ERROR results is not zero and 0 otherwise. The process runs the checks of
  \<open>create_tests\<close>, and it exits with 1 if and only if that number is not zero or the
  write of the results to a requested output file raises, and with 0 if and only if the
  number is zero and no such write raises; without its configuration it exits with 1.
\<close>

theorem summary_partition_and_exit:
  "total (print_summary (run_tests tests env)) = length (run_tests tests env) \<and>
   passed (print_summary (run_tests tests env))
     = length (filter (\<lambda>r. Evidence.result r = ''PASS'') (run_tests tests env)) \<and>
   failed (print_summary (run_tests tests env))
     = length (filter (\<lambda>r. Evidence.result r = ''FAIL'') (run_tests tests env)) \<and>
   errors (print_summary (run_tests tests env))
     = length (filter (\<lambda>r. Evidence.result r = ''ERROR'') (run_tests tests env)) \<and>
   passed (print_summary (run_tests tests env)) + failed (print_summary (run_tests tests env))
     + errors (print_summary (run_tests tests env))
     + length (filter (\<lambda>r. Evidence.result r = ''SKIP'') (run_tests tests env))
     = total (print_summary (run_tests tests env)) \<and>
   (exit_code (run_tests tests env) = 1 \<longleftrightarrow>
      failed (print_summary (run_tests tests env)) + errors (print_summary (run_tests tests env)) > 0) \<and>
   (exit_code (run_tests tests env) = 0 \<longleftrightarrow>
      failed (print_summary (run_tests tests env)) + errors (print_summary (run_tests tests env)) = 0) \<and>
   results (main args (Some cfg) env session h) = run_tests (create_tests cfg) env \<and>
   passed (print_summary (run_tests (create_tests cfg) env))
     + failed (print_summary (run_tests (create_tests cfg) env))
     + errors (print_summary (run_tests (create_tests cfg) env))
     = total (print_summary (run_tests (create_tests cfg) env)) \<and>
   (exit_status (main args (Some cfg) env session h) = 1 \<longleftrightarrow>
      failed (print_summary (run_tests (create_tests cfg) env))
        + errors (print_summary (run_tests (create_tests cfg) env)) > 0 \<or>
      (\<exists>path e. output_file args = Some path \<and> path \<noteq> [] \<and>
         write_file h path (output_data h (run_tests (create_tests cfg) env)) = Some e)) \<and>
   (exit_status (main args (Some cfg) env session h) = 0 \<longleftrightarrow>
      failed (print_summary (run_tests (create_tests cfg) env))
        + errors (print_summary (run_tests (create_tests cfg) env)) = 0 \<and>
      \<not> (\<exists>path e. output_file args = Some path \<and> path \<noteq> [] \<and>
         write_file h path (output_data h (run_tests (create_tests cfg) env)) = Some e)) \<and>
   exit_status (main args None env session h) = 1"
proof -
  have part: "\<And>ts. length (filter (\<lambda>r. Evidence.result r = ''PASS'') (run_tests ts env))
     + length (filter (\<lambda>r. Evidence.result r = ''FAIL'') (run_tests ts env))
     + length (filter (\<lambda>r. Evidence.result r = ''ERROR'') (run_tests ts env))
     + length (filter (\<lambda>r. Evidence.result r = ''SKIP'') (run_tests ts env))
     = length (run_tests ts env)"
    using run_tests_results by (intro results_partition ballI)
  have ex: "\<And>rs. (exit_code rs = 1 \<longleftrightarrow> length (filter (\<lambda>r. Evidence.result r = ''FAIL'') rs)
                      + length (filter (\<lambda>r. Evidence.result r = ''ERROR'') rs) > 0)
      \<and> (exit_code rs = 0 \<longleftrightarrow> length (filter (\<lambda>r. Evidence.result r = ''FAIL'') rs)
                      + length (filter (\<lambda>r. Evidence.result r = ''ERROR'') rs) = 0)"
    by (simp add: exit_code_def failed_count_sum)
  have ps: "\<And>rs. total (print_summary rs) = length rs
      \<and> passed (print_summary rs) = length (filter (\<lambda>r. Evidence.result r = ''PASS'') rs)
      \<and> failed (print_summary rs) = length (filter (\<lambda>r. Evidence.result r = ''FAIL'') rs)
      \<and> errors (print_summary rs) = length (filter (\<lambda>r. Evidence.result r = ''ERROR'') rs)"
    by (simp add: print_summary_def count_result_def)
  have suite: "length (filter (\<lambda>r. Evidence.result r = ''PASS'') (run_tests (create_tests cfg) env))
     + length (filter (\<lambda>r. Evidence.result r = ''FAIL'') (run_tests (create_tests cfg) env))
     + length (filter (\<lambda>r. Evidence.result r = ''ERROR'') (run_tests (create_tests cfg) env))
     = length (run_tests (create_tests cfg) env)"
    using part [of "create_tests cfg"] by (simp add: suite_results_no_SKIP)
  have st: "exit_status (main args (Some cfg) env session h) =
     (case write_results args h (run_tests (create_tests cfg) env) of
        Some e \<Rightarrow> 1 | None \<Rightarrow> exit_code (run_tests (create_tests cfg) env))"
    by (rule main_exit_status)
  have w: "(\<exists>e. write_results args h (run_tests (create_tests cfg) env) = Some e) \<longleftrightarrow>
   (\<exists>path e. output_file args = Some path \<and> path \<noteq> [] \<and>
             write_file h path (output_data h (run_tests (create_tests cfg) env)) = Some e)"
    by (rule write_results_Some)
  have e1: "exit_status (main args (Some cfg) env session h) = 1 \<longleftrightarrow>
      exit_code (run_tests (create_tests cfg) env) = 1 \<or>
      (\<exists>e. write_results args h (run_tests (create_tests cfg) env) = Some e)"
    unfolding st by (cases "write_results args h (run_tests (create_tests cfg) env)") simp_all
  have e0: "exit_status (main args (Some cfg) env session h) = 0 \<longleftrightarrow>
      exit_code (run_tests (create_tests cfg) env) = 0 \<and>
      \<not> (\<exists>e. write_results args h (run_tests (create_tests cfg) env) = Some e)"
    unfolding st by (cases "write_results args h (run_tests (create_tests cfg) env)") simp_all
  have n: "exit_status (main args None env session h) = 1"
    by (simp add: main_def)
  show ?thesis
    unfolding e1 e0 w
    using part [of tests] suite ex [of "run_tests tests env"]
      ex [of "run_tests (create_tests cfg) env"] n
    by (simp add: ps main_results)
qed


lemma all_green_results:
  "map Evidence.result (run_tests (create_tests example_config) all_green)
     = [''PASS'', ''PASS'', ''PASS'', ''PASS'', ''PASS'', ''PASS'', ''PASS'', ''PASS'', ''PASS'']"
proof -
  have r1: "Evidence.result (run (RT001_RateLimitFreeTier ''free-trial-key'') (at_noon 10 11)
      (mock_dataplane [200, 200, 200, 200, 200, 429, 429, 429])) = ''PASS''"
    by (simp add: run_result RT001_RateLimitFreeTier_def RT001_execute_def Let_def outcome_of_def
        test_rate_limit_def get_def mock_dataplane_def unreachable_def count_status_def
        upt_rec [of _ 8] nth_Cons')
  have r2: "Evidence.result (run (RT002_RateLimitProTier ''pro-key'') (at_noon 10 11)
      (mock_dataplane [200, 200, 200, 200, 200, 200, 200, 200, 200, 200])) = ''PASS''"
    by (simp add: run_result RT002_RateLimitProTier_def RT002_execute_def Let_def outcome_of_def
        test_rate_limit_def get_def mock_dataplane_def unreachable_def count_status_def
        upt_rec [of _ 10] nth_Cons')
  have r3: "Evidence.result (run RT003_InvalidKeyRejected (at_noon 10 11) (mock_dataplane [401]))
      = ''PASS''"
    by (simp add: run_result RT003_InvalidKeyRejected_def RT003_execute_def Let_def outcome_of_def
        get_def mock_dataplane_def unreachable_def)
  have r4: "Evidence.result (run RT004_MissingKeyRejected (at_noon 10 11) (mock_dataplane [401]))
      = ''PASS''"
    by (simp add: run_result RT004_MissingKeyRejected_def RT004_execute_def Let_def outcome_of_def
        get_def mock_dataplane_def unreachable_def)
  have r5: "Evidence.result (run (RT005_ValidKeyAccepted ''pro-key'') (at_noon 10 11)
      (mock_response 200 (JObj [(''status'', JStr ''ok'')]))) = ''PASS''"
    by (simp add: run_result RT005_ValidKeyAccepted_def RT005_execute_def Let_def outcome_of_def
        health_check_def get_def mock_response_def unreachable_def response_json_def)
  have r6: "Evidence.result (run (RT006_ConsumerIdentityInjected ''pro-key'' ''tier_pro'')
      (at_noon 10 11)
      (mock_response 200 (JObj [(''consumer'', JObj [(''custom_id'', JStr ''tier_pro'')])])))
      = ''PASS''"
    by (simp add: run_result RT006_ConsumerIdentityInjected_def RT006_execute_def Let_def
        outcome_of_def get_whoami_def get_def mock_response_def unreachable_def response_json_def)
  have r7: "Evidence.result (run CF001_AuthPluginEnabled (at_noon 10 11)
      (mock_konnect [] [plugin_key_auth_bare])) = ''PASS''"
    by (simp add: run_result CF001_AuthPluginEnabled_def CF001_execute_def Let_def outcome_of_def
        get_plugins_def plugin_of_item_def new_plugin_def nested_id_def then_do_def
        mock_konnect_def unreachable_def plugin_key_auth_bare_def)
  have r8: "Evidence.result (run CF002_RateLimitPluginEnabled (at_noon 10 11)
      (mock_konnect [] [plugin_limit_alice])) = ''PASS''"
    by (simp add: run_result CF002_RateLimitPluginEnabled_def CF002_execute_def Let_def
        outcome_of_def get_plugins_def plugin_of_item_def new_plugin_def nested_id_def then_do_def
        rate_limit_config_def mock_konnect_def unreachable_def plugin_limit_alice_def)
  have r9: "Evidence.result (run CF003_AllConsumersHaveLimits (at_noon 10 11)
      (mock_konnect [consumer_alice] [plugin_limit_alice])) = ''PASS''"
    by (simp add: run_result CF003_AllConsumersHaveLimits_def CF003_execute_def Let_def
        outcome_of_def get_plugins_def plugin_of_item_def new_plugin_def nested_id_def then_do_def
        get_consumers_def consumer_of_item_def consumers_with_limits_def set_of_def
        set_member_def mock_konnect_def unreachable_def plugin_limit_alice_def consumer_alice_def)
  show ?thesis
    using r1 r2 r3 r4 r5 r6 r7 r8 r9
    by (simp add: run_tests_def create_tests_def example_config_def all_green_def)
qed

text \<open>
  Claim C5 as stated fails: all nine checks pass, so no result is FAIL or ERROR, the
  results are to be written to a path that cannot be opened, and the process exits
  with 1. On a machine where the write succeeds the same run exits with 0.
\<close>

theorem all_green_exit_failure:
  "map Evidence.result
     (results (main output_args (Some example_config) all_green (\<lambda>k path body. Inl ''unused'')
        unwritable))
     = [''PASS'', ''PASS'', ''PASS'', ''PASS'', ''PASS'', ''PASS'', ''PASS'', ''PASS'', ''PASS''] \<and>
   exit_status (main output_args (Some example_config) all_green (\<lambda>k path body. Inl ''unused'')
        unwritable) = 1 \<and>
   exit_status (main output_args (Some example_config) all_green (\<lambda>k path body. Inl ''unused'')
        writable) = 0"
proof -
  let ?rs = "run_tests (create_tests example_config) all_green"
  have f: "\<And>s. length (filter (\<lambda>r. Evidence.result r = s) ?rs)
             = length (filter (\<lambda>x. x = s) (map Evidence.result ?rs))"
    by (simp add: filter_map comp_def)
  have "failed_count ?rs = 0"
    unfolding failed_count_sum f all_green_results by simp
  then have c: "exit_code ?rs = 0" by (simp add: exit_code_def)
  have u: "write_results output_args unwritable ?rs = Some ''[Errno 2] No such file or directory''"
    by (simp add: write_results_def output_args_def unwritable_def)
  have w: "write_results output_args writable ?rs = None"
    by (simp add: write_results_def output_args_def writable_def)
  show ?thesis
    by (simp add: main_results main_exit_status all_green_results u w c)
qed

text \<open>The nine checks on a gateway where all pass, with and without a failing write.\<close>

theorem summary_partition_and_exit_witness:
  "total (print_summary (run_tests (create_tests example_config) all_green)) = 9 \<and>
   passed (print_summary (run_tests (create_tests example_config) all_green)) = 9 \<and>
   failed (print_summary (run_tests (create_tests example_config) all_green)) = 0 \<and>
   errors (print_summary (run_tests (create_tests example_config) all_green)) = 0 \<and>
   exit_status (main output_args (Some example_config) all_green (\<lambda>k path body. Inl ''unused'')
        writable) = 0 \<and>
   exit_status (main output_args (Some example_config) all_green (\<lambda>k path body. Inl ''unused'')
        unwritable) = 1"
proof -
  let ?rs = "run_tests (create_tests example_config) all_green"
  have f: "\<And>s. length (filter (\<lambda>r. Evidence.result r = s) ?rs)
             = length (filter (\<lambda>x. x = s) (map Evidence.result ?rs))"
    by (simp add: filter_map comp_def)
  have p: "length (filter (\<lambda>r. Evidence.result r = ''PASS'') ?rs) = 9"
    unfolding f all_green_results by simp
  have fl: "length (filter (\<lambda>r. Evidence.result r = ''FAIL'') ?rs) = 0"
    unfolding f all_green_results by simp
  have er: "length (filter (\<lambda>r. Evidence.result r = ''ERROR'') ?rs) = 0"
    unfolding f all_green_results by simp
  have l: "length ?rs = 9"
    using arg_cong [OF all_green_results, of length] by simp
  have ww: "\<not> (\<exists>path e. output_file output_args = Some path \<and> path \<noteq> [] \<and>
         write_file writable path (output_data writable ?rs) = Some e)"
    by (simp add: writable_def)
  have wu: "\<exists>path e. output_file output_args = Some path \<and> path \<noteq> [] \<and>
         write_file unwritable path (output_data unwritable ?rs) = Some e"
    by (simp add: unwritable_def output_args_def)
  note t1 = summary_partition_and_exit [of "create_tests example_config" all_green output_args
      example_config "\<lambda>k path body. Inl ''unused''" writable]
  note t2 = summary_partition_and_exit [of "create_tests example_config" all_green output_args
      example_config "\<lambda>k path body. Inl ''unused''" unwritable]
  show ?thesis
    using t1 t2 p fl er l ww wu by simp
qed

section \<open>Mapping to the sink\<close>

lemma mapped_status:
  "dict_get (to_dict (payload_of e)) ''status'' JNull
     = Inr (JStr (if Evidence.result e = ''PASS'' then ''PASSING'' else ''FAILING''))"
  by (simp add: to_dict_def payload_of_def)

lemma push_mock:
  "push_to_drata rs (DrataMockClient v sub) False
     = DrataMockClient v (sub @ map (\<lambda>e. JObj [(''monitor_id'', JStr (monitor_id_of e)),
                                              (''payload'', to_dict (payload_of e))]) rs)"
  by (induction rs arbitrary: sub) (simp_all add: Let_def)

lemma push_live:
  "push_to_drata rs (DrataClient sent session) False
     = DrataClient (sent @ map (\<lambda>e. (''/public/monitors/'' @ monitor_id_of e @ ''/evidence'',
                                      to_dict (payload_of e))) rs) session"
  by (induction rs arbitrary: sent) (simp_all add: Let_def)

lemma lower_RT001: "lower ''RT-001'' = ''rt-001''"
  by code_simp

text \<open>
  Claim C6. The payload built from an Evidence record has status "PASSING" when the
  result is PASS and "FAILING" otherwise, so for FAIL, ERROR and SKIP; the target is
  "kong-" followed by the lower-cased check id ("kong-rt-001" for RT-001). Pushing to
  either sink records, per record and in order, exactly that target and that payload,
  and pushing the same Evidence twice records the same submission twice.
\<close>

theorem sink_mapping:
  "dict_get (to_dict (payload_of e)) ''status'' JNull
     = Inr (JStr (if Evidence.result e = ''PASS'' then ''PASSING'' else ''FAILING'')) \<and>
   dict_get (to_dict (payload_of (e \<lparr> Evidence.result := TestResult_value r \<rparr>))) ''status'' JNull
     = Inr (JStr (case r of PASS \<Rightarrow> ''PASSING'' | FAIL \<Rightarrow> ''FAILING''
                          | ERROR \<Rightarrow> ''FAILING'' | SKIP \<Rightarrow> ''FAILING'')) \<and>
   monitor_id_of e = ''kong-'' @ lower (Evidence.test_id e) \<and>
   monitor_id_of (e \<lparr> Evidence.test_id := ''RT-001'' \<rparr>) = ''kong-rt-001'' \<and>
   push_to_drata rs (DrataMockClient v []) False
     = DrataMockClient v (map (\<lambda>e. JObj [(''monitor_id'', JStr (''kong-'' @ lower (Evidence.test_id e))),
                                         (''payload'', to_dict (payload_of e))]) rs) \<and>
   posted (push_to_drata rs (DrataClient [] session) False)
     = map (\<lambda>e. (''/public/monitors/kong-'' @ lower (Evidence.test_id e) @ ''/evidence'',
                  to_dict (payload_of e))) rs \<and>
   submitted_evidence (push_to_drata [e, e] (DrataMockClient v []) False)
     = [JObj [(''monitor_id'', JStr (monitor_id_of e)), (''payload'', to_dict (payload_of e))],
        JObj [(''monitor_id'', JStr (monitor_id_of e)), (''payload'', to_dict (payload_of e))]]"
proof (intro conjI)
  show "dict_get (to_dict (payload_of e)) ''status'' JNull
     = Inr (JStr (if Evidence.result e = ''PASS'' then ''PASSING'' else ''FAILING''))"
    by (rule mapped_status)
  show "dict_get (to_dict (payload_of (e \<lparr> Evidence.result := TestResult_value r \<rparr>))) ''status'' JNull
     = Inr (JStr (case r of PASS \<Rightarrow> ''PASSING'' | FAIL \<Rightarrow> ''FAILING''
                          | ERROR \<Rightarrow> ''FAILING'' | SKIP \<Rightarrow> ''FAILING''))"
    by (cases r) (simp_all add: mapped_status)
  show "monitor_id_of e = ''kong-'' @ lower (Evidence.test_id e)"
    by (simp add: monitor_id_of_def)
  show "monitor_id_of (e \<lparr> Evidence.test_id := ''RT-001'' \<rparr>) = ''kong-rt-001''"
    by (simp add: monitor_id_of_def lower_RT001)
  show "push_to_drata rs (DrataMockClient v []) False
     = DrataMockClient v (map (\<lambda>e. JObj [(''monitor_id'', JStr (''kong-'' @ lower (Evidence.test_id e))),
                                         (''payload'', to_dict (payload_of e))]) rs)"
    using push_mock [of rs v "[]"] by (simp add: monitor_id_of_def)
  show "posted (push_to_drata rs (DrataClient [] session) False)
     = map (\<lambda>e. (''/public/monitors/kong-'' @ lower (Evidence.test_id e) @ ''/evidence'',
                  to_dict (payload_of e))) rs"
    using push_live [of rs "[]" session] by (simp add: monitor_id_of_def)
  show "submitted_evidence (push_to_drata [e, e] (DrataMockClient v []) False)
     = [JObj [(''monitor_id'', JStr (monitor_id_of e)), (''payload'', to_dict (payload_of e))],
        JObj [(''monitor_id'', JStr (monitor_id_of e)), (''payload'', to_dict (payload_of e))]]"
    using push_mock [of "[e, e]" v "[]"] by simp
qed

section \<open>Free-tier rate limit\<close>

lemma length_test_rate_limit: "length (test_rate_limit w key path n) = n"
  by (simp add: test_rate_limit_def)

lemma count_status_pos: "count_status c codes > 0 \<longleftrightarrow> c \<in> set codes"
  by (induction codes) (auto simp: count_status_def)

lemma RT001_execute_result:
  "\<exists>d a. RT001_execute key w =
     Returns (if 429 \<in> set (test_rate_limit w key ''/api/hello'' 8)
                 \<and> length (filter (\<lambda>r. r = 200) (test_rate_limit w key ''/api/hello'' 8)) \<le> 5
              then PASS else FAIL) d a"
  by (simp add: RT001_execute_def Let_def outcome_of_def count_status_pos)
     (simp add: count_status_def)

lemma RT001_run_result:
  "Evidence.result (run (RT001_RateLimitFreeTier key) clk w) =
     (if 429 \<in> set (test_rate_limit w key ''/api/hello'' 8)
         \<and> length (filter (\<lambda>r. r = 200) (test_rate_limit w key ''/api/hello'' 8)) \<le> 5
      then ''PASS'' else ''FAIL'')"
proof -
  obtain d a where "execute (RT001_RateLimitFreeTier key) w =
     Returns (if 429 \<in> set (test_rate_limit w key ''/api/hello'' 8)
                 \<and> length (filter (\<lambda>r. r = 200) (test_rate_limit w key ''/api/hello'' 8)) \<le> 5
              then PASS else FAIL) d a"
    using RT001_execute_result [of key w] by (auto simp: RT001_RateLimitFreeTier_def)
  then show ?thesis by (simp add: run_result)
qed

lemma test_rate_limit_mock:
  "test_rate_limit (mock_dataplane codes) key path (length codes) = codes"
  by (rule nth_equalityI)
     (simp_all add: test_rate_limit_def get_def mock_dataplane_def unreachable_def)

text \<open>
  Claim C7. The free-tier check observes eight status codes, and its result is PASS if
  and only if one of them is 429 and at most five of them are 200, and FAIL otherwise;
  so it is for every list of eight codes that a mocked data plane returns.
\<close>

theorem free_tier_rate_limit:
  "length (test_rate_limit w key ''/api/hello'' 8) = 8 \<and>
   (Evidence.result (run (RT001_RateLimitFreeTier key) clk w) = ''PASS'' \<longleftrightarrow>
      429 \<in> set (test_rate_limit w key ''/api/hello'' 8)
      \<and> length (filter (\<lambda>r. r = 200) (test_rate_limit w key ''/api/hello'' 8)) \<le> 5) \<and>
   (Evidence.result (run (RT001_RateLimitFreeTier key) clk w) = ''FAIL'' \<longleftrightarrow>
      \<not> (429 \<in> set (test_rate_limit w key ''/api/hello'' 8)
      \<and> length (filter (\<lambda>r. r = 200) (test_rate_limit w key ''/api/hello'' 8)) \<le> 5)) \<and>
   (length codes = 8 \<longrightarrow>
      test_rate_limit (mock_dataplane codes) key ''/api/hello'' 8 = codes \<and>
      (Evidence.result (run (RT001_RateLimitFreeTier key) clk (mock_dataplane codes)) = ''PASS'' \<longleftrightarrow>
         429 \<in> set codes \<and> length (filter (\<lambda>r. r = 200) codes) \<le> 5) \<and>
      (Evidence.result (run (RT001_RateLimitFreeTier key) clk (mock_dataplane codes)) = ''FAIL'' \<longleftrightarrow>
         \<not> (429 \<in> set codes \<and> length (filter (\<lambda>r. r = 200) codes) \<le> 5)))"
proof (intro conjI impI)
  show "length (test_rate_limit w key ''/api/hello'' 8) = 8"
    by (rule length_test_rate_limit)
  show "Evidence.result (run (RT001_RateLimitFreeTier key) clk w) = ''PASS'' \<longleftrightarrow>
      429 \<in> set (test_rate_limit w key ''/api/hello'' 8)
      \<and> length (filter (\<lambda>r. r = 200) (test_rate_limit w key ''/api/hello'' 8)) \<le> 5"
    by (simp add: RT001_run_result)
  show "Evidence.result (run (RT001_RateLimitFreeTier key) clk w) = ''FAIL'' \<longleftrightarrow>
      \<not> (429 \<in> set (test_rate_limit w key ''/api/hello'' 8)
      \<and> length (filter (\<lambda>r. r = 200) (test_rate_limit w key ''/api/hello'' 8)) \<le> 5)"
    by (simp add: RT001_run_result)
next
  assume len: "length codes = 8"
  then show m: "test_rate_limit (mock_dataplane codes) key ''/api/hello'' 8 = codes"
    using test_rate_limit_mock [of codes key "''/api/hello''"] by simp
  show "Evidence.result (run (RT001_RateLimitFreeTier key) clk (mock_dataplane codes)) = ''PASS'' \<longleftrightarrow>
         429 \<in> set codes \<and> length (filter (\<lambda>r. r = 200) codes) \<le> 5"
    by (simp add: RT001_run_result m)
  show "Evidence.result (run (RT001_RateLimitFreeTier key) clk (mock_dataplane codes)) = ''FAIL'' \<longleftrightarrow>
         \<not> (429 \<in> set codes \<and> length (filter (\<lambda>r. r = 200) codes) \<le> 5)"
    by (simp add: RT001_run_result m)
qed

text \<open>Five 200s followed by three 429s pass; eight 200s fail.\<close>

text \<open>
  Five 200s and three 429s pass; eight 200s fail; six or seven 200s fail even with a
  429; five 200s pass with one 429 among other codes.
\<close>

theorem free_tier_rate_limit_witness:
  "length [200, 200, 200, 200, 200, 429, 429, 429 :: int] = 8 \<and>
   Evidence.result (run (RT001_RateLimitFreeTier ''free-trial-key'') (at_noon 10 11)
       (mock_dataplane [200, 200, 200, 200, 200, 429, 429, 429])) = ''PASS'' \<and>
   length [200, 200, 200, 200, 200, 200, 200, 200 :: int] = 8 \<and>
   Evidence.result (run (RT001_RateLimitFreeTier ''free-trial-key'') (at_noon 10 11)
       (mock_dataplane [200, 200, 200, 200, 200, 200, 200, 200])) = ''FAIL'' \<and>
   length [200, 200, 200, 200, 200, 200, 429, 429 :: int] = 8 \<and>
   Evidence.result (run (RT001_RateLimitFreeTier ''free-trial-key'') (at_noon 10 11)
       (mock_dataplane [200, 200, 200, 200, 200, 200, 429, 429])) = ''FAIL'' \<and>
   length [200, 200, 200, 200, 200, 200, 200, 429 :: int] = 8 \<and>
   Evidence.result (run (RT001_RateLimitFreeTier ''free-trial-key'') (at_noon 10 11)
       (mock_dataplane [200, 200, 200, 200, 200, 200, 200, 429])) = ''FAIL'' \<and>
   length [200, 429, 200, 0, 200, 500, 200, 200 :: int] = 8 \<and>
   Evidence.result (run (RT001_RateLimitFreeTier ''free-trial-key'') (at_noon 10 11)
       (mock_dataplane [200, 429, 200, 0, 200, 500, 200, 200])) = ''PASS''"
  using free_tier_rate_limit [of unreachable "''free-trial-key''" "at_noon 10 11"
          "[200, 200, 200, 200, 200, 429, 429, 429]"]
        free_tier_rate_limit [of unreachable "''free-trial-key''" "at_noon 10 11"
          "[200, 200, 200, 200, 200, 200, 200, 200]"]
        free_tier_rate_limit [of unreachable "''free-trial-key''" "at_noon 10 11"
          "[200, 200, 200, 200, 200, 200, 429, 429]"]
        free_tier_rate_limit [of unreachable "''free-trial-key''" "at_noon 10 11"
          "[200, 200, 200, 200, 200, 200, 200, 429]"]
        free_tier_rate_limit [of unreachable "''free-trial-key''" "at_noon 10 11"
          "[200, 429, 200, 0, 200, 500, 200, 200]"]
  by simp

section \<open>Coverage of the consumers\<close>

lemma set_of_Inr: "set_of vs = Inr ms \<Longrightarrow> ms = vs"
proof (induction vs arbitrary: ms)
  case Nil
  then show ?case by (simp add: set_of_def)
next
  case (Cons v vs)
  then show ?case
    by (auto simp: set_of_def then_do_def split: if_splits sum.splits)
qed

lemma consumers_with_limits_Inr:
  "consumers_with_limits plugins = Inr limits \<Longrightarrow>
   limits = map consumer_id (filter (\<lambda>p. truthy (consumer_id p) \<and> truthy (enabled p)) plugins)"
  unfolding consumers_with_limits_def by (rule set_of_Inr)

lemma coverage_loop_hashable:
  "\<forall>c \<in> set consumers. hashable (KongConsumer.id' c) \<Longrightarrow>
   coverage_loop limits consumers
     = Inr (map (\<lambda>c. (c, list_ex (same_key (KongConsumer.id' c)) limits)) consumers)"
  by (induction consumers) (simp_all add: then_do_def set_member_def)

lemma set_member_Inr_hashable: "set_member v ms = Inr b \<Longrightarrow> hashable v"
  by (simp add: set_member_def split: if_splits)

lemma set_member_Inr_value: "set_member v ms = Inr b \<Longrightarrow> list_ex (same_key v) ms = b"
  by (simp add: set_member_def split: if_splits)

lemma CF003_execute_fetched:
  assumes "get_consumers w = Inr consumers"
    and "get_plugins w (Some ''rate-limiting'') = Inr plugins"
    and "consumers_with_limits plugins = Inr limits"
    and "coverage_loop limits consumers = Inr coverage"
  shows "\<exists>d a. CF003_execute w
           = Returns (outcome_of (filter (\<lambda>ch. \<not> snd ch) coverage = [] \<and> consumers \<noteq> [])) d a
         \<and> map_of d ''missing_limits''
           = Some (JList (map (\<lambda>ch. username (fst ch)) (filter (\<lambda>ch. \<not> snd ch) coverage)))"
  using assms by (simp add: CF003_execute_def Let_def)

text \<open>
  Claim C8. Given the consumers and the rate-limiting plugins that the admin API lists,
  and the set of the consumer ids of the enabled plugins that have a consumer: with no
  consumer the result is FAIL; with at least one consumer, each with its id in the set,
  the result is PASS; and a consumer whose id is not in the set makes the result FAIL,
  with its username in the \<open>missing_limits\<close> of the details (the ids being hashable
  values, as the strings the client declares are).
\<close>

theorem all_consumers_have_limits:
  assumes "get_consumers w = Inr consumers"
    and "get_plugins w (Some ''rate-limiting'') = Inr plugins"
    and "consumers_with_limits plugins = Inr limits"
  shows "limits = map consumer_id
                    (filter (\<lambda>p. truthy (consumer_id p) \<and> truthy (enabled p)) plugins) \<and>
    (consumers = [] \<longrightarrow>
       Evidence.result (run CF003_AllConsumersHaveLimits clk w) = ''FAIL'') \<and>
    (consumers \<noteq> [] \<and> (\<forall>c \<in> set consumers. set_member (KongConsumer.id' c) limits = Inr True) \<longrightarrow>
       Evidence.result (run CF003_AllConsumersHaveLimits clk w) = ''PASS'') \<and>
    ((\<forall>c \<in> set consumers. hashable (KongConsumer.id' c)) \<and> u \<in> set consumers \<and>
     set_member (KongConsumer.id' u) limits = Inr False \<longrightarrow>
       Evidence.result (run CF003_AllConsumersHaveLimits clk w) = ''FAIL'' \<and>
       (\<exists>missing. map_of (Evidence.details (run CF003_AllConsumersHaveLimits clk w)) ''missing_limits''
                     = Some (JList missing) \<and> username u \<in> set missing))"
proof (intro conjI impI)
  show "limits = map consumer_id
                    (filter (\<lambda>p. truthy (consumer_id p) \<and> truthy (enabled p)) plugins)"
    using assms(3) by (rule consumers_with_limits_Inr)
next
  assume "consumers = []"
  then have "coverage_loop limits consumers = Inr []" by simp
  from CF003_execute_fetched [OF assms this] \<open>consumers = []\<close>
  obtain d a where "execute CF003_AllConsumersHaveLimits w = Returns FAIL d a"
    by (auto simp: CF003_AllConsumersHaveLimits_def outcome_of_def)
  then show "Evidence.result (run CF003_AllConsumersHaveLimits clk w) = ''FAIL''"
    by (simp add: run_result)
next
  assume h: "consumers \<noteq> [] \<and>
    (\<forall>c \<in> set consumers. set_member (KongConsumer.id' c) limits = Inr True)"
  then have hash: "\<forall>c \<in> set consumers. hashable (KongConsumer.id' c)"
    by (blast intro: set_member_Inr_hashable)
  have all: "\<forall>c \<in> set consumers. list_ex (same_key (KongConsumer.id' c)) limits"
    using h set_member_Inr_value by blast
  let ?cov = "map (\<lambda>c. (c, list_ex (same_key (KongConsumer.id' c)) limits)) consumers"
  have "filter (\<lambda>ch. \<not> snd ch) ?cov = []"
    using all by (simp add: filter_empty_conv)
  with CF003_execute_fetched [OF assms coverage_loop_hashable [OF hash]] h
  obtain d a where "execute CF003_AllConsumersHaveLimits w = Returns PASS d a"
    by (auto simp: CF003_AllConsumersHaveLimits_def outcome_of_def)
  then show "Evidence.result (run CF003_AllConsumersHaveLimits clk w) = ''PASS''"
    by (simp add: run_result)
next
  assume h: "(\<forall>c \<in> set consumers. hashable (KongConsumer.id' c)) \<and> u \<in> set consumers \<and>
     set_member (KongConsumer.id' u) limits = Inr False"
  let ?cov = "map (\<lambda>c. (c, list_ex (same_key (KongConsumer.id' c)) limits)) consumers"
  have cov: "coverage_loop limits consumers = Inr ?cov"
    using h by (simp add: coverage_loop_hashable)
  have nu: "\<not> list_ex (same_key (KongConsumer.id' u)) limits"
    using h set_member_Inr_value by blast
  then have mem: "(u, False) \<in> set (filter (\<lambda>ch. \<not> snd ch) ?cov)"
    using h by (auto simp: image_iff)
  have ne: "filter (\<lambda>ch. \<not> snd ch) ?cov \<noteq> []"
    using h nu by (auto simp: filter_empty_conv)
  have um: "username u \<in> set (map (\<lambda>ch. username (fst ch)) (filter (\<lambda>ch. \<not> snd ch) ?cov))"
    using mem by (metis (mono_tags, lifting) fst_conv image_eqI set_map)
  from CF003_execute_fetched [OF assms cov] ne
  obtain d a where ex: "execute CF003_AllConsumersHaveLimits w = Returns FAIL d a"
    and md: "map_of d ''missing_limits''
           = Some (JList (map (\<lambda>ch. username (fst ch)) (filter (\<lambda>ch. \<not> snd ch) ?cov)))"
    by (auto simp: CF003_AllConsumersHaveLimits_def outcome_of_def)
  show "Evidence.result (run CF003_AllConsumersHaveLimits clk w) = ''FAIL''"
    using ex by (simp add: run_result)
  have "Evidence.details (run CF003_AllConsumersHaveLimits clk w) = d"
    using ex by (simp add: run_def)
  then show "\<exists>missing. map_of (Evidence.details (run CF003_AllConsumersHaveLimits clk w)) ''missing_limits''
                     = Some (JList missing) \<and> username u \<in> set missing"
    using md um by blast
qed


lemma mock_konnect_fields:
  "konnect_consumers (mock_konnect cs ps) = Inr cs"
  "konnect_plugins (mock_konnect cs ps) = Inr ps"
  by (simp_all add: mock_konnect_def)

lemma alice_parsed:
  "consumer_of_item consumer_alice
     = Inr \<lparr> KongConsumer.id' = JStr ''c1'', username = JStr ''alice'',
             custom_id = JStr ''tier_free'', created_at = JInt 1700000000 \<rparr>"
  by (simp add: consumer_of_item_def consumer_alice_def then_do_def)

lemma bob_parsed:
  "consumer_of_item consumer_bob
     = Inr \<lparr> KongConsumer.id' = JStr ''c2'', username = JStr ''bob'',
             custom_id = JNull, created_at = JInt 0 \<rparr>"
  by (simp add: consumer_of_item_def consumer_bob_def then_do_def)

lemma limit_alice_parsed:
  "plugins_loop (Some ''rate-limiting'') [plugin_limit_alice]
     = Inr [\<lparr> KongPlugin.id' = JStr ''p1'', name = JStr ''rate-limiting'', enabled = JBool True,
               config = JObj [(''minute'', JInt 5), (''policy'', JStr ''local'')],
               consumer_id = JStr ''c1'', service_id = JNull, route_id = JNull \<rparr>]"
  by (simp add: plugin_of_item_def new_plugin_def nested_id_def plugin_limit_alice_def then_do_def)

lemma limit_alice_set:
  "consumers_with_limits
     [\<lparr> KongPlugin.id' = JStr ''p1'', name = JStr ''rate-limiting'', enabled = JBool True,
        config = JObj [(''minute'', JInt 5), (''policy'', JStr ''local'')],
        consumer_id = JStr ''c1'', service_id = JNull, route_id = JNull \<rparr>]
     = Inr [JStr ''c1'']"
  by (simp add: consumers_with_limits_def set_of_def then_do_def)

text \<open>
  One rate-limiting plugin for alice: no consumers fail, alice alone passes, alice and
  bob fail with bob missing.
\<close>

theorem all_consumers_have_limits_witness:
  "get_consumers (mock_konnect [] [plugin_limit_alice]) = Inr [] \<and>
   Evidence.result (run CF003_AllConsumersHaveLimits (at_noon 10 11)
      (mock_konnect [] [plugin_limit_alice])) = ''FAIL'' \<and>
   set_member (JStr ''c1'') [JStr ''c1''] = Inr True \<and>
   Evidence.result (run CF003_AllConsumersHaveLimits (at_noon 10 11)
      (mock_konnect [consumer_alice] [plugin_limit_alice])) = ''PASS'' \<and>
   set_member (JStr ''c2'') [JStr ''c1''] = Inr False \<and>
   Evidence.result (run CF003_AllConsumersHaveLimits (at_noon 10 11)
      (mock_konnect [consumer_alice, consumer_bob] [plugin_limit_alice])) = ''FAIL'' \<and>
   (\<exists>missing. map_of (Evidence.details (run CF003_AllConsumersHaveLimits (at_noon 10 11)
        (mock_konnect [consumer_alice, consumer_bob] [plugin_limit_alice]))) ''missing_limits''
          = Some (JList missing) \<and> JStr ''bob'' \<in> set missing)"
proof -
  let ?alice = "\<lparr> KongConsumer.id' = JStr ''c1'', username = JStr ''alice'',
             custom_id = JStr ''tier_free'', created_at = JInt 1700000000 \<rparr>"
  let ?bob = "\<lparr> KongConsumer.id' = JStr ''c2'', username = JStr ''bob'',
             custom_id = JNull, created_at = JInt 0 \<rparr>"
  let ?p = "\<lparr> KongPlugin.id' = JStr ''p1'', name = JStr ''rate-limiting'', enabled = JBool True,
               config = JObj [(''minute'', JInt 5), (''policy'', JStr ''local'')],
               consumer_id = JStr ''c1'', service_id = JNull, route_id = JNull \<rparr>"
  have c0: "get_consumers (mock_konnect [] [plugin_limit_alice]) = Inr []"
    by (simp add: get_consumers_def mock_konnect_fields then_do_def)
  have c1: "get_consumers (mock_konnect [consumer_alice] [plugin_limit_alice]) = Inr [?alice]"
    by (simp add: get_consumers_def mock_konnect_fields then_do_def alice_parsed)
  have c2: "get_consumers (mock_konnect [consumer_alice, consumer_bob] [plugin_limit_alice])
              = Inr [?alice, ?bob]"
    by (simp add: get_consumers_def mock_konnect_fields then_do_def alice_parsed bob_parsed)
  have p: "\<And>cs. get_plugins (mock_konnect cs [plugin_limit_alice]) (Some ''rate-limiting'') = Inr [?p]"
    by (simp add: get_plugins_def mock_konnect_fields then_do_def limit_alice_parsed
        del: plugins_loop.simps)
  have m1: "set_member (JStr ''c1'') [JStr ''c1''] = Inr True"
    by (simp add: set_member_def)
  have m2: "set_member (JStr ''c2'') [JStr ''c1''] = Inr False"
    by (simp add: set_member_def)
  note t0 = all_consumers_have_limits [OF c0 p limit_alice_set, of "at_noon 10 11" ?bob]
  note t1 = all_consumers_have_limits [OF c1 p limit_alice_set, of "at_noon 10 11" ?bob]
  note t2 = all_consumers_have_limits [OF c2 p limit_alice_set, of "at_noon 10 11" ?bob]
  have r0: "Evidence.result (run CF003_AllConsumersHaveLimits (at_noon 10 11)
      (mock_konnect [] [plugin_limit_alice])) = ''FAIL''"
    using t0 [THEN conjunct2, THEN conjunct1] by (rule mp) (rule refl)
  have h1: "[?alice] \<noteq> [] \<and>
      (\<forall>c \<in> set [?alice]. set_member (KongConsumer.id' c) [JStr ''c1''] = Inr True)"
    using m1 by simp
  have r1: "Evidence.result (run CF003_AllConsumersHaveLimits (at_noon 10 11)
      (mock_konnect [consumer_alice] [plugin_limit_alice])) = ''PASS''"
    using t1 [THEN conjunct2, THEN conjunct2, THEN conjunct1] h1 by (rule mp)
  have h2: "(\<forall>c \<in> set [?alice, ?bob]. hashable (KongConsumer.id' c)) \<and>
      ?bob \<in> set [?alice, ?bob] \<and> set_member (KongConsumer.id' ?bob) [JStr ''c1''] = Inr False"
    using m2 by simp
  have r2: "Evidence.result (run CF003_AllConsumersHaveLimits (at_noon 10 11)
      (mock_konnect [consumer_alice, consumer_bob] [plugin_limit_alice])) = ''FAIL'' \<and>
    (\<exists>missing. map_of (Evidence.details (run CF003_AllConsumersHaveLimits (at_noon 10 11)
        (mock_konnect [consumer_alice, consumer_bob] [plugin_limit_alice]))) ''missing_limits''
          = Some (JList missing) \<and> username ?bob \<in> set missing)"
    using t2 [THEN conjunct2, THEN conjunct2, THEN conjunct2] h2 by (rule mp)
  have ub: "username ?bob = JStr ''bob''" by simp
  show ?thesis
    using c0 r0 m1 r1 m2 r2 unfolding ub by (intro conjI) blast+
qed

section \<open>Identity injection\<close>

lemma RT006_run_result:
  "Evidence.result (run (RT006_ConsumerIdentityInjected key expected) clk w) = ''PASS'' \<longleftrightarrow>
     fst (get_whoami w key) = 200 \<and>
     (\<exists>c. dict_get (snd (get_whoami w key)) ''consumer'' (JObj []) = Inr c \<and>
          dict_get c ''custom_id'' (JStr []) = Inr (JStr expected))"
  by (cases "get_whoami w key")
     (auto simp: run_result RT006_ConsumerIdentityInjected_def RT006_execute_def Let_def
        outcome_of_def split: sum.splits)

lemma RT006_no_consumer:
  assumes "snd (get_whoami w key) = JObj kvs" and "map_of kvs ''consumer'' = None"
  shows "\<exists>d a. RT006_execute key expected w
           = Returns (outcome_of (fst (get_whoami w key) = 200 \<and> expected = [])) d a
         \<and> map_of d ''actual_custom_id'' = Some (JStr [])"
  using assms by (cases "get_whoami w key") (auto simp: RT006_execute_def Let_def eq_commute)

text \<open>
  Claim C9, as the code has it. The identity-injection check passes if and only if the
  status is 200 and the \<open>custom_id\<close> of the \<open>consumer\<close> of the body, each looked up
  with its default (an empty dictionary, the empty string), is the string expected, to
  the letter. On a body without a \<open>consumer\<close> the value compared is the empty string:
  the check then passes exactly when the status is 200 and the expected identity is
  itself empty, and fails otherwise, so it fails for every expected identity that is not
  empty.
\<close>

theorem identity_injection:
  "(Evidence.result (run (RT006_ConsumerIdentityInjected key expected) clk w) = ''PASS'' \<longleftrightarrow>
      fst (get_whoami w key) = 200 \<and>
      (\<exists>c. dict_get (snd (get_whoami w key)) ''consumer'' (JObj []) = Inr c \<and>
           dict_get c ''custom_id'' (JStr []) = Inr (JStr expected))) \<and>
   (snd (get_whoami w key) = JObj kvs \<and> map_of kvs ''consumer'' = None \<longrightarrow>
      map_of (Evidence.details (run (RT006_ConsumerIdentityInjected key expected) clk w))
        ''actual_custom_id'' = Some (JStr []) \<and>
      (Evidence.result (run (RT006_ConsumerIdentityInjected key expected) clk w) = ''PASS'' \<longleftrightarrow>
         fst (get_whoami w key) = 200 \<and> expected = []) \<and>
      (Evidence.result (run (RT006_ConsumerIdentityInjected key expected) clk w) = ''FAIL'' \<longleftrightarrow>
         \<not> (fst (get_whoami w key) = 200 \<and> expected = [])))"
proof (intro conjI impI)
  show "Evidence.result (run (RT006_ConsumerIdentityInjected key expected) clk w) = ''PASS'' \<longleftrightarrow>
      fst (get_whoami w key) = 200 \<and>
      (\<exists>c. dict_get (snd (get_whoami w key)) ''consumer'' (JObj []) = Inr c \<and>
           dict_get c ''custom_id'' (JStr []) = Inr (JStr expected))"
    by (rule RT006_run_result)
next
  assume h: "snd (get_whoami w key) = JObj kvs \<and> map_of kvs ''consumer'' = None"
  then obtain d a where
    ex: "execute (RT006_ConsumerIdentityInjected key expected) w
           = Returns (outcome_of (fst (get_whoami w key) = 200 \<and> expected = [])) d a"
    and ac: "map_of d ''actual_custom_id'' = Some (JStr [])"
    using RT006_no_consumer [of w key kvs expected]
    by (auto simp: RT006_ConsumerIdentityInjected_def)
  have "Evidence.details (run (RT006_ConsumerIdentityInjected key expected) clk w) = d"
    using ex by (simp add: run_def)
  then show "map_of (Evidence.details (run (RT006_ConsumerIdentityInjected key expected) clk w))
        ''actual_custom_id'' = Some (JStr [])"
    using ac by simp
  show "Evidence.result (run (RT006_ConsumerIdentityInjected key expected) clk w) = ''PASS'' \<longleftrightarrow>
         fst (get_whoami w key) = 200 \<and> expected = []"
    using ex by (simp add: run_result outcome_of_def)
  show "Evidence.result (run (RT006_ConsumerIdentityInjected key expected) clk w) = ''FAIL'' \<longleftrightarrow>
         \<not> (fst (get_whoami w key) = 200 \<and> expected = [])"
    using ex by (simp add: run_result outcome_of_def)
qed

lemma whoami_mock: "get_whoami (mock_response code body) key = (code, body)"
  by (simp add: get_whoami_def get_def mock_response_def unreachable_def response_json_def)

text \<open>
  Expecting "tier_pro": the body that carries it passes, "Tier_Pro" does not, and a body
  without a consumer fails.
\<close>

theorem identity_injection_witness:
  "Evidence.result (run (RT006_ConsumerIdentityInjected ''pro-key'' ''tier_pro'') (at_noon 10 11)
      (mock_response 200 (JObj [(''consumer'', JObj [(''custom_id'', JStr ''tier_pro'')])]))) = ''PASS'' \<and>
   Evidence.result (run (RT006_ConsumerIdentityInjected ''pro-key'' ''tier_pro'') (at_noon 10 11)
      (mock_response 200 (JObj [(''consumer'', JObj [(''custom_id'', JStr ''Tier_Pro'')])]))) \<noteq> ''PASS'' \<and>
   snd (get_whoami (mock_response 200 (JObj [(''message'', JStr ''hello'')])) ''pro-key'')
     = JObj [(''message'', JStr ''hello'')] \<and>
   map_of [(''message'', JStr ''hello'')] ''consumer'' = None \<and>
   Evidence.result (run (RT006_ConsumerIdentityInjected ''pro-key'' ''tier_pro'') (at_noon 10 11)
      (mock_response 200 (JObj [(''message'', JStr ''hello'')]))) = ''FAIL''"
proof -
  have b: "snd (get_whoami (mock_response 200 (JObj [(''message'', JStr ''hello'')])) ''pro-key'')
     = JObj [(''message'', JStr ''hello'')]"
    by (simp add: whoami_mock)
  have n: "map_of [(''message'', JStr ''hello'')] ''consumer'' = None" by simp
  have r1: "Evidence.result (run (RT006_ConsumerIdentityInjected ''pro-key'' ''tier_pro'') (at_noon 10 11)
      (mock_response 200 (JObj [(''consumer'', JObj [(''custom_id'', JStr ''tier_pro'')])]))) = ''PASS''"
    using identity_injection [of "''pro-key''" "''tier_pro''" "at_noon 10 11"
        "mock_response 200 (JObj [(''consumer'', JObj [(''custom_id'', JStr ''tier_pro'')])])" "[]",
        THEN conjunct1]
    by (simp add: whoami_mock)
  have r2: "Evidence.result (run (RT006_ConsumerIdentityInjected ''pro-key'' ''tier_pro'') (at_noon 10 11)
      (mock_response 200 (JObj [(''consumer'', JObj [(''custom_id'', JStr ''Tier_Pro'')])]))) \<noteq> ''PASS''"
    using identity_injection [of "''pro-key''" "''tier_pro''" "at_noon 10 11"
        "mock_response 200 (JObj [(''consumer'', JObj [(''custom_id'', JStr ''Tier_Pro'')])])" "[]",
        THEN conjunct1]
    by (simp add: whoami_mock)
  have r3: "Evidence.result (run (RT006_ConsumerIdentityInjected ''pro-key'' ''tier_pro'') (at_noon 10 11)
      (mock_response 200 (JObj [(''message'', JStr ''hello'')]))) = ''FAIL''"
    using identity_injection [of "''pro-key''" "''tier_pro''" "at_noon 10 11"
        "mock_response 200 (JObj [(''message'', JStr ''hello'')])" "[(''message'', JStr ''hello'')]",
        THEN conjunct2] b n
    by simp
  show ?thesis using b n r1 r2 r3 by (intro conjI)
qed

text \<open>
  Claim C9 as stated fails: the check is configured with the empty string as the
  expected identity, the response has status 200 and a body without a \<open>consumer\<close>, and
  the result is PASS.
\<close>

theorem no_consumer_empty_expected_passes:
  "snd (get_whoami (mock_response 200 (JObj [(''message'', JStr ''hello'')])) ''pro-key'')
     = JObj [(''message'', JStr ''hello'')] \<and>
   map_of [(''message'', JStr ''hello'')] ''consumer'' = None \<and>
   Evidence.result (run (RT006_ConsumerIdentityInjected ''pro-key'' []) (at_noon 10 11)
      (mock_response 200 (JObj [(''message'', JStr ''hello'')]))) = ''PASS''"
  by (simp add: whoami_mock run_result RT006_ConsumerIdentityInjected_def RT006_execute_def
      Let_def outcome_of_def)

section \<open>Plugins listed without the enabled field\<close>






section \<open>Dry run\<close>

lemma push_to_drata_dry: "push_to_drata rs c True = c"
  by (induction rs) (simp_all add: Let_def)

lemma length_run_tests: "length (run_tests tests env) = length tests"
  by (simp add: run_tests_def)

text \<open>
  Claim C4 against the code. In dry-run mode \<open>main\<close> builds the mock client, runs the
  nine checks and hands the nine records to \<open>push_to_drata\<close>, whose dry-run branch
  never calls the client: its \<open>submitted_evidence\<close> is empty afterwards. The same
  record pushed to the same mock client without the dry-run flag is recorded.
\<close>

theorem dry_run_records_nothing:
  "length (results (main dry_run_args (Some example_config) (\<lambda>i. (at_noon 10 11, unreachable))
             (\<lambda>k path body. Inl ''unused'') writable)) = 9 \<and>
   sink (main dry_run_args (Some example_config) (\<lambda>i. (at_noon 10 11, unreachable))
             (\<lambda>k path body. Inl ''unused'') writable) = Some (DrataMockClient False []) \<and>
   submitted_evidence
     (push_to_drata [run RT003_InvalidKeyRejected (at_noon 10 11) (mock_dataplane [401])]
        (DrataMockClient False []) True) = [] \<and>
   length (submitted_evidence
     (push_to_drata [run RT003_InvalidKeyRejected (at_noon 10 11) (mock_dataplane [401])]
        (DrataMockClient False []) False)) = 1"
  by (simp add: main_def Let_def dry_run_args_def example_config_def push_to_drata_dry
      length_run_tests create_tests_def effective_config_def write_results_def)

end
